theory Spec2Isabelle
  imports Complex_Main "HOL-Library.AList"
begin

section \<open>FinanceTracker: the in-memory store, the aggregation engine and the routes\<close>

text \<open>
  The development embeds the server side of the finance tracker: the volatile store
  \<^verbatim>\<open>MemStorage\<close>, the aggregation helper \<^verbatim>\<open>generateMonthlySummary\<close>, the statement
  importer \<^verbatim>\<open>extractTransactions\<close> and the request handlers that call them.

  Conventions of the embedding.
  \<^item> A JavaScript number is an exact rational (\<open>rat\<close>); identifiers, years and months are
    integers. Rounding of IEEE doubles, \<^verbatim>\<open>NaN\<close> and the infinities are outside the model:
    where the code adds, divides or parses doubles, the model computes the exact value. What
    is proved about a total is therefore about which amounts it collects and in which form,
    not about its rounding error or an overflow.
    A decimal string produced by \<^verbatim>\<open>String(n)\<close> and read back by \<^verbatim>\<open>Number(s)\<close> is
    represented by the number it denotes (the round trip is exact for finite doubles).
  \<^item> A JavaScript \<^verbatim>\<open>Map\<close> is an association list in insertion order:
    \<^verbatim>\<open>set\<close> is \<open>AList.update\<close> (an existing key keeps its position, a new key is appended),
    \<^verbatim>\<open>delete\<close> is \<open>AList.delete\<close>, \<^verbatim>\<open>get\<close> is \<open>map_of\<close> and \<^verbatim>\<open>values()\<close> is \<open>map snd\<close>.
  \<^item> A \<^verbatim>\<open>Date\<close> is its time value, the milliseconds since the epoch in UTC.
    The local time zone of the process is the parameter \<open>tza\<close>, a constant offset in
    milliseconds (local time = UTC + \<open>tza\<close>); the clock \<^verbatim>\<open>new Date()\<close> is the parameter \<open>now\<close>,
    and in the importer, which reads it once for every line it keeps, the function \<open>clock\<close>.
  \<^item> A date-only string \<^verbatim>\<open>YYYY-MM-DD\<close> is the record of its three numbers.
  \<^item> An asynchronous method that mutates the store takes the store and returns it updated.
\<close>

subsection \<open>Dates\<close>

type_synonym number = rat

record isodate =
  d_year :: int
  d_month :: int
  d_day :: int

definition msPerDay :: int where
  "msPerDay = 86400000"

text \<open>Day number (days since 1970-01-01) of a date of the proleptic Gregorian calendar,
  month in 1..12; the day may lie outside the month, as in \<^verbatim>\<open>MakeDay\<close>.\<close>

definition days_from_civil :: "int \<Rightarrow> int \<Rightarrow> int \<Rightarrow> int" where
  "days_from_civil y m d =
     (let y' = (if m \<le> 2 then y - 1 else y);
          era = y' div 400;
          yoe = y' - era * 400;
          doy = (153 * (if m > 2 then m - 3 else m + 9) + 2) div 5 + d - 1;
          doe = yoe * 365 + yoe div 4 - yoe div 100 + doy
      in era * 146097 + doe - 719468)"

text \<open>The calendar date of a day number.\<close>

definition civil_from_days :: "int \<Rightarrow> isodate" where
  "civil_from_days z =
     (let z' = z + 719468;
          era = z' div 146097;
          doe = z' - era * 146097;
          yoe = (doe - doe div 1460 + doe div 36524 - doe div 146096) div 365;
          y = yoe + era * 400;
          doy = doe - (365 * yoe + yoe div 4 - yoe div 100);
          mp = (5 * doy + 2) div 153;
          d = doy - (153 * mp + 2) div 5 + 1;
          m = (if mp < 10 then mp + 3 else mp - 9)
      in \<lparr>d_year = (if m \<le> 2 then y + 1 else y), d_month = m, d_day = d\<rparr>)"

text \<open>The abstract operations of the language standard that the \<^verbatim>\<open>Date\<close> methods use.\<close>

definition Day :: "int \<Rightarrow> int" where
  "Day t = t div msPerDay"

definition LocalTime :: "int \<Rightarrow> int \<Rightarrow> int" where
  "LocalTime tza t = t + tza"

definition UTC_of_local :: "int \<Rightarrow> int \<Rightarrow> int" where
  "UTC_of_local tza t = t - tza"

definition MakeDay :: "int \<Rightarrow> int \<Rightarrow> int \<Rightarrow> int" where
  "MakeDay year month date = days_from_civil (year + month div 12) (month mod 12 + 1) 1 + date - 1"

text \<open>\<^verbatim>\<open>new Date(s)\<close> for a date-only string: midnight UTC of that date.\<close>

definition Date_of_string :: "isodate \<Rightarrow> int" where
  "Date_of_string s = days_from_civil (d_year s) (d_month s) (d_day s) * msPerDay"

text \<open>\<^verbatim>\<open>new Date(year, monthIndex, day)\<close>: midnight local time; a year in 0..99 means 1900 + year.\<close>

definition Date_of_fields :: "int \<Rightarrow> int \<Rightarrow> int \<Rightarrow> int \<Rightarrow> int" where
  "Date_of_fields tza year monthIndex day =
     (let yr = (if 0 \<le> year \<and> year \<le> 99 then 1900 + year else year)
      in UTC_of_local tza (MakeDay yr monthIndex day * msPerDay))"

definition getFullYear :: "int \<Rightarrow> int \<Rightarrow> int" where
  "getFullYear tza t = d_year (civil_from_days (Day (LocalTime tza t)))"

text \<open>\<^verbatim>\<open>getMonth()\<close> counts from 0.\<close>

definition getMonth :: "int \<Rightarrow> int \<Rightarrow> int" where
  "getMonth tza t = d_month (civil_from_days (Day (LocalTime tza t))) - 1"

text \<open>\<^verbatim>\<open>d.toISOString().split('T')[0]\<close>: the UTC calendar date of the instant.\<close>

definition dateToString :: "int \<Rightarrow> isodate" where
  "dateToString t = civil_from_days (Day t)"

subsection \<open>The schema\<close>

definition categories :: "string list" where
  "categories = [''Housing'', ''Transportation'', ''Food'', ''Utilities'', ''Healthcare'',
     ''Entertainment'', ''Education'', ''Shopping'', ''Income'', ''Other'']"

record transaction =
  tx_id :: int
  tx_userId :: int
  tx_date :: isodate
  tx_description :: string
  tx_category :: string
  tx_amount :: number
  tx_type :: string
  tx_pdfSource :: "string option"
  tx_createdAt :: int

text \<open>\<^verbatim>\<open>InsertTransaction\<close>: the date is a \<^verbatim>\<open>Date\<close>, the amount a number; \<^verbatim>\<open>pdfSource\<close> may be
  missing (\<open>None\<close>), \<^verbatim>\<open>null\<close> (\<open>Some None\<close>) or a string.\<close>

record insert_transaction =
  it_date :: int
  it_description :: string
  it_category :: string
  it_amount :: number
  it_type :: string
  it_pdfSource :: "string option option"

text \<open>\<^verbatim>\<open>Partial<InsertTransaction>\<close>: \<open>None\<close> is a field that is \<^verbatim>\<open>undefined\<close>.\<close>

record partial_transaction =
  pt_date :: "int option"
  pt_description :: "string option"
  pt_category :: "string option"
  pt_amount :: "number option"
  pt_type :: "string option"
  pt_pdfSource :: "string option option"

record monthly_summary =
  ms_id :: int
  ms_userId :: int
  ms_year :: int
  ms_month :: int
  ms_totalIncome :: number
  ms_totalExpenses :: number
  ms_netBalance :: number
  ms_lastUpdated :: int

record insert_monthly_summary =
  ims_year :: int
  ims_month :: int
  ims_totalIncome :: number
  ims_totalExpenses :: number
  ims_netBalance :: number

record category_breakdown =
  cb_id :: int
  cb_summaryId :: int
  cb_category :: string
  cb_amount :: number
  cb_percentage :: number

record insert_category_breakdown =
  icb_category :: string
  icb_amount :: number
  icb_percentage :: number

subsection \<open>MemStorage\<close>

text \<open>The maps and counters of \<^verbatim>\<open>MemStorage\<close> that the transaction, summary and breakdown
  methods use.\<close>

record mem_storage =
  transactions :: "(int \<times> transaction) list"
  monthlySummaries :: "(int \<times> monthly_summary) list"
  categoryBreakdowns :: "(int \<times> category_breakdown) list"
  transactionId :: int
  summaryId :: int
  breakdownId :: int

definition MemStorage_new :: mem_storage where
  "MemStorage_new = \<lparr>transactions = [], monthlySummaries = [], categoryBreakdowns = [],
     transactionId = 1, summaryId = 1, breakdownId = 1\<rparr>"

definition getTransactions :: "mem_storage \<Rightarrow> int \<Rightarrow> transaction list" where
  "getTransactions s userId = filter (\<lambda>t. tx_userId t = userId) (map snd (transactions s))"

definition getTransactionsByMonth :: "int \<Rightarrow> mem_storage \<Rightarrow> int \<Rightarrow> int \<Rightarrow> int \<Rightarrow> transaction list" where
  "getTransactionsByMonth tza s userId year month =
     filter (\<lambda>t. let transactionDate = Date_of_string (tx_date t)
                 in tx_userId t = userId \<and> getFullYear tza transactionDate = year
                    \<and> getMonth tza transactionDate = month - 1)
       (map snd (transactions s))"

definition getTransactionById :: "mem_storage \<Rightarrow> int \<Rightarrow> transaction option" where
  "getTransactionById s i = map_of (transactions s) i"

text \<open>\<^verbatim>\<open>x || null\<close> on an optional string: a missing, \<^verbatim>\<open>null\<close> or empty string gives \<^verbatim>\<open>null\<close>.\<close>

definition or_null :: "string option option \<Rightarrow> string option" where
  "or_null x = (case x of None \<Rightarrow> None | Some None \<Rightarrow> None
                | Some (Some str) \<Rightarrow> (if str = [] then None else Some str))"

definition createTransaction :: "int \<Rightarrow> mem_storage \<Rightarrow> int \<Rightarrow> insert_transaction \<Rightarrow> transaction \<times> mem_storage" where
  "createTransaction now s userId insertTransaction =
     (let i = transactionId s;
          t = \<lparr>tx_id = i, tx_userId = userId,
               tx_date = dateToString (it_date insertTransaction),
               tx_description = it_description insertTransaction,
               tx_category = it_category insertTransaction,
               tx_amount = it_amount insertTransaction,
               tx_type = it_type insertTransaction,
               tx_pdfSource = or_null (it_pdfSource insertTransaction),
               tx_createdAt = now\<rparr>
      in (t, s\<lparr>transactionId := i + 1, transactions := AList.update i t (transactions s)\<rparr>))"

definition apply_update :: "partial_transaction \<Rightarrow> transaction \<Rightarrow> transaction" where
  "apply_update updateData t =
     (let t1 = (case pt_date updateData of None \<Rightarrow> t | Some d \<Rightarrow> t\<lparr>tx_date := dateToString d\<rparr>);
          t2 = (case pt_amount updateData of None \<Rightarrow> t1 | Some a \<Rightarrow> t1\<lparr>tx_amount := a\<rparr>);
          t3 = (case pt_description updateData of None \<Rightarrow> t2 | Some d \<Rightarrow> t2\<lparr>tx_description := d\<rparr>);
          t4 = (case pt_category updateData of None \<Rightarrow> t3 | Some c \<Rightarrow> t3\<lparr>tx_category := c\<rparr>);
          t5 = (case pt_type updateData of None \<Rightarrow> t4 | Some ty \<Rightarrow> t4\<lparr>tx_type := ty\<rparr>)
      in (case pt_pdfSource updateData of None \<Rightarrow> t5 | Some p \<Rightarrow> t5\<lparr>tx_pdfSource := p\<rparr>))"

definition updateTransaction :: "mem_storage \<Rightarrow> int \<Rightarrow> partial_transaction \<Rightarrow> transaction option \<times> mem_storage" where
  "updateTransaction s i updateData =
     (case map_of (transactions s) i of
        None \<Rightarrow> (None, s)
      | Some t \<Rightarrow>
          (let updatedTransaction = apply_update updateData t
           in (Some updatedTransaction,
               s\<lparr>transactions := AList.update i updatedTransaction (transactions s)\<rparr>)))"

text \<open>\<^verbatim>\<open>Map.delete\<close> returns whether the key was present.\<close>

definition deleteTransaction :: "mem_storage \<Rightarrow> int \<Rightarrow> bool \<times> mem_storage" where
  "deleteTransaction s i =
     (map_of (transactions s) i \<noteq> None, s\<lparr>transactions := AList.delete i (transactions s)\<rparr>)"

definition getMonthlySummaryByMonth :: "mem_storage \<Rightarrow> int \<Rightarrow> int \<Rightarrow> int \<Rightarrow> monthly_summary option" where
  "getMonthlySummaryByMonth s userId year month =
     find (\<lambda>summary. ms_userId summary = userId \<and> ms_year summary = year \<and> ms_month summary = month)
       (map snd (monthlySummaries s))"

definition createOrUpdateMonthlySummary ::
  "int \<Rightarrow> mem_storage \<Rightarrow> int \<Rightarrow> insert_monthly_summary \<Rightarrow> monthly_summary \<times> mem_storage" where
  "createOrUpdateMonthlySummary now s userId summaryData =
     (case getMonthlySummaryByMonth s userId (ims_year summaryData) (ims_month summaryData) of
        Some existing \<Rightarrow>
          (let updatedSummary = existing\<lparr>ms_year := ims_year summaryData,
                 ms_month := ims_month summaryData,
                 ms_totalIncome := ims_totalIncome summaryData,
                 ms_totalExpenses := ims_totalExpenses summaryData,
                 ms_netBalance := ims_netBalance summaryData,
                 ms_lastUpdated := now\<rparr>
           in (updatedSummary,
               s\<lparr>monthlySummaries := AList.update (ms_id existing) updatedSummary (monthlySummaries s)\<rparr>))
      | None \<Rightarrow>
          (let i = summaryId s;
               summary = \<lparr>ms_id = i, ms_userId = userId,
                 ms_year = ims_year summaryData, ms_month = ims_month summaryData,
                 ms_totalIncome = ims_totalIncome summaryData,
                 ms_totalExpenses = ims_totalExpenses summaryData,
                 ms_netBalance = ims_netBalance summaryData,
                 ms_lastUpdated = now\<rparr>
           in (summary,
               s\<lparr>summaryId := i + 1, monthlySummaries := AList.update i summary (monthlySummaries s)\<rparr>)))"

definition getCategoryBreakdowns :: "mem_storage \<Rightarrow> int \<Rightarrow> category_breakdown list" where
  "getCategoryBreakdowns s sid = filter (\<lambda>b. cb_summaryId b = sid) (map snd (categoryBreakdowns s))"

definition createCategoryBreakdown ::
  "mem_storage \<Rightarrow> int \<Rightarrow> insert_category_breakdown \<Rightarrow> category_breakdown \<times> mem_storage" where
  "createCategoryBreakdown s sid breakdownData =
     (let i = breakdownId s;
          breakdown = \<lparr>cb_id = i, cb_summaryId = sid, cb_category = icb_category breakdownData,
            cb_amount = icb_amount breakdownData, cb_percentage = icb_percentage breakdownData\<rparr>
      in (breakdown,
          s\<lparr>breakdownId := i + 1, categoryBreakdowns := AList.update i breakdown (categoryBreakdowns s)\<rparr>))"

text \<open>The loop \<^verbatim>\<open>for (const breakdown of breakdowns) results.push(await create(...))\<close>.\<close>

fun createBreakdowns ::
  "mem_storage \<Rightarrow> int \<Rightarrow> category_breakdown list \<Rightarrow> insert_category_breakdown list
     \<Rightarrow> category_breakdown list \<times> mem_storage" where
  "createBreakdowns s sid results [] = (results, s)"
| "createBreakdowns s sid results (breakdown # rest) =
     (case createCategoryBreakdown s sid breakdown of
        (created, s') \<Rightarrow> createBreakdowns s' sid (results @ [created]) rest)"

definition updateCategoryBreakdowns ::
  "mem_storage \<Rightarrow> int \<Rightarrow> insert_category_breakdown list \<Rightarrow> category_breakdown list \<times> mem_storage" where
  "updateCategoryBreakdowns s sid breakdowns =
     (let stale = filter (\<lambda>b. cb_summaryId b = sid) (map snd (categoryBreakdowns s));
          s1 = s\<lparr>categoryBreakdowns := foldl (\<lambda>m b. AList.delete (cb_id b) m) (categoryBreakdowns s) stale\<rparr>
      in createBreakdowns s1 sid [] breakdowns)"

subsection \<open>The aggregation engine\<close>

text \<open>\<^verbatim>\<open>expensesByCategory.get(c) || 0\<close>.\<close>

definition get_or_zero :: "(string \<times> number) list \<Rightarrow> string \<Rightarrow> number" where
  "get_or_zero m c = (case map_of m c of None \<Rightarrow> 0 | Some v \<Rightarrow> v)"

definition expensesByCategory :: "transaction list \<Rightarrow> (string \<times> number) list" where
  "expensesByCategory txs =
     foldl (\<lambda>m t. AList.update (tx_category t) (get_or_zero m (tx_category t) + \<bar>tx_amount t\<bar>) m)
       (foldl (\<lambda>m cat. AList.update cat 0 m) [] categories)
       (filter (\<lambda>t. tx_type t = ''expense'') txs)"

definition generateMonthlySummary ::
  "int \<Rightarrow> int \<Rightarrow> mem_storage \<Rightarrow> int \<Rightarrow> int \<Rightarrow> int \<Rightarrow> monthly_summary option \<times> mem_storage" where
  "generateMonthlySummary tza now s userId year month =
     (let txs = getTransactionsByMonth tza s userId year month
      in if length txs = 0 then (None, s)
         else
           (let totalIncome = foldl (\<lambda>sum t. sum + tx_amount t) 0
                                (filter (\<lambda>t. tx_type t = ''income'') txs);
                totalExpenses = foldl (\<lambda>sum t. sum + \<bar>tx_amount t\<bar>) 0
                                  (filter (\<lambda>t. tx_type t = ''expense'') txs);
                netBalance = totalIncome - totalExpenses
            in (case createOrUpdateMonthlySummary now s userId
                       \<lparr>ims_year = year, ims_month = month, ims_totalIncome = totalIncome,
                        ims_totalExpenses = totalExpenses, ims_netBalance = netBalance\<rparr> of
                  (summary, s1) \<Rightarrow>
                    (let breakdowns =
                           map (\<lambda>(category, amount).
                                  \<lparr>icb_category = category, icb_amount = amount,
                                   icb_percentage = (amount / totalExpenses) * 100\<rparr>)
                             (filter (\<lambda>(_, amount). amount > 0) (expensesByCategory txs))
                     in (Some summary, snd (updateCategoryBreakdowns s1 (ms_id summary) breakdowns))))))"

subsection \<open>PostgresStorage: the month filter\<close>

text \<open>\<^verbatim>\<open>PostgresStorage.getTransactionsByMonth\<close> asks the database for the rows of the user
  (\<open>result\<close>, what \<^verbatim>\<open>findMany\<close> returns) and filters them in memory by the date range
  from the first to the last day of the month, both built in local time.\<close>

definition pg_getTransactionsByMonth :: "int \<Rightarrow> transaction list \<Rightarrow> int \<Rightarrow> int \<Rightarrow> transaction list" where
  "pg_getTransactionsByMonth tza result year month =
     (let startDate = Date_of_fields tza year (month - 1) 1;
          endDate = Date_of_fields tza year month 0
      in filter (\<lambda>t. let txDate = Date_of_string (tx_date t)
                     in txDate \<ge> startDate \<and> txDate \<le> endDate) result)"

subsection \<open>The statement importer\<close>

text \<open>Strings are lists of characters, read as code units below 256.\<close>

fun split_on :: "char \<Rightarrow> string \<Rightarrow> string list" where
  "split_on c [] = [[]]"
| "split_on c (x # xs) =
     (if x = c then [] # split_on c xs
      else (case split_on c xs of [] \<Rightarrow> [[x]] | l # ls \<Rightarrow> (x # l) # ls))"

definition is_space :: "char \<Rightarrow> bool" where
  "is_space c = (c \<in> set [CHR 0x09, CHR 0x0A, CHR 0x0B, CHR 0x0C, CHR 0x0D, CHR 0x20, CHR 0xA0])"

definition trim :: "string \<Rightarrow> string" where
  "trim str = rev (dropWhile is_space (rev (dropWhile is_space str)))"

definition is_digit :: "char \<Rightarrow> bool" where
  "is_digit c = (c \<in> set ''0123456789'')"

text \<open>\<^verbatim>\<open>\d+\.\d{2}\<close> at the start of a string, with the text it matches. The digits are taken
  greedily; giving a digit back never helps, since the next character must be the point.\<close>

definition match_amount_here :: "string \<Rightarrow> string option" where
  "match_amount_here str =
     (let ds = takeWhile is_digit str
      in if ds = [] then None
         else (case dropWhile is_digit str of
                 p # d1 # d2 # _ \<Rightarrow>
                   (if p = CHR ''.'' \<and> is_digit d1 \<and> is_digit d2 then Some (ds @ [p, d1, d2]) else None)
               | _ \<Rightarrow> None))"

text \<open>The first match of \<^verbatim>\<open>/\$(\d+\.\d{2})/\<close> in a line: the text of group 1.\<close>

fun first_amount :: "string \<Rightarrow> string option" where
  "first_amount [] = None"
| "first_amount (c # cs) =
     (if c = CHR ''$''
      then (case match_amount_here cs of Some g \<Rightarrow> Some g | None \<Rightarrow> first_amount cs)
      else first_amount cs)"

text \<open>\<^verbatim>\<open>/\$\d+\.\d{2}/.test(line)\<close>.\<close>

definition amount_pattern_test :: "string \<Rightarrow> bool" where
  "amount_pattern_test line = (first_amount line \<noteq> None)"

definition digit_value :: "char \<Rightarrow> int" where
  "digit_value c = (case map_of (zip ''0123456789'' [0, 1, 2, 3, 4, 5, 6, 7, 8, 9]) c of
                      Some v \<Rightarrow> v | None \<Rightarrow> 0)"

definition digits_value :: "string \<Rightarrow> int" where
  "digits_value ds = foldl (\<lambda>a c. a * 10 + digit_value c) 0 ds"

text \<open>\<^verbatim>\<open>parseFloat\<close> on the text of group 1, digits, a point and two digits: the decimal
  value that the text denotes (the code rounds it to the nearest double).\<close>

definition parseFloat :: "string \<Rightarrow> number" where
  "parseFloat g =
     of_int (digits_value (takeWhile is_digit g))
       + of_int (digits_value (take 2 (drop 1 (dropWhile is_digit g)))) / 100"

definition to_lower :: "char \<Rightarrow> char" where
  "to_lower c = (case map_of (zip ''ABCDEFGHIJKLMNOPQRSTUVWXYZ'' ''abcdefghijklmnopqrstuvwxyz'') c of
                   Some l \<Rightarrow> l | None \<Rightarrow> c)"

fun infix_of :: "string \<Rightarrow> string \<Rightarrow> bool" where
  "infix_of kw [] = (kw = [])"
| "infix_of kw (c # cs) = (take (length kw) (c # cs) = kw \<or> infix_of kw cs)"

text \<open>\<^verbatim>\<open>/k1|k2|.../i.test(line)\<close> for lower-case keywords.\<close>

definition mentions :: "string list \<Rightarrow> string \<Rightarrow> bool" where
  "mentions kws line = list_ex (\<lambda>kw. infix_of kw (map to_lower line)) kws"

definition classify :: "string \<Rightarrow> string" where
  "classify line =
     (if mentions [''rent'', ''mortgage'', ''home''] line then ''Housing''
      else if mentions [''car'', ''gas'', ''uber'', ''lyft'', ''transit''] line then ''Transportation''
      else if mentions [''grocery'', ''restaurant'', ''food''] line then ''Food''
      else if mentions [''electric'', ''water'', ''phone'', ''internet''] line then ''Utilities''
      else if mentions [''salary'', ''deposit'', ''income''] line then ''Income''
      else ''Other'')"

text \<open>Every extracted transaction is dated \<^verbatim>\<open>new Date()\<close>, read when its line is handled:
  \<open>clock k\<close> is the reading for the transaction with index \<open>k\<close> in the result.\<close>

definition extractTransactions :: "(nat \<Rightarrow> int) \<Rightarrow> string \<Rightarrow> insert_transaction list" where
  "extractTransactions clock text_in =
     foldl (\<lambda>found line.
              if amount_pattern_test line
              then (let amount = parseFloat (case first_amount line of Some g \<Rightarrow> g | None \<Rightarrow> ''0'');
                        isIncome = mentions [''deposit'', ''salary'', ''income'', ''transfer in''] line
                    in found @ [\<lparr>it_date = clock (length found),
                                 it_description = take 100 (trim line),
                                 it_category = classify line,
                                 it_amount = (if isIncome then amount else - amount),
                                 it_type = (if isIncome then ''income'' else ''expense''),
                                 it_pdfSource = None\<rparr>])
              else found)
       [] (filter (\<lambda>line. length (trim line) > 0) (split_on (CHR 0x0A) text_in))"

subsection \<open>The request handlers\<close>

text \<open>\<^verbatim>\<open>insertTransactionSchema.parse\<close>: the category and the type are checked against their
  enumerations; \<open>None\<close> is the \<^verbatim>\<open>ZodError\<close>. A body whose date or amount does not coerce is
  not a value of the record.\<close>

definition insertTransactionSchema_parse :: "insert_transaction \<Rightarrow> insert_transaction option" where
  "insertTransactionSchema_parse body =
     (if it_category body \<in> set categories \<and> it_type body \<in> set [''income'', ''expense'']
      then Some body else None)"

definition insertTransactionSchema_partial_parse :: "partial_transaction \<Rightarrow> partial_transaction option" where
  "insertTransactionSchema_partial_parse body =
     (if (case pt_category body of None \<Rightarrow> True | Some c \<Rightarrow> c \<in> set categories)
         \<and> (case pt_type body of None \<Rightarrow> True | Some ty \<Rightarrow> ty \<in> set [''income'', ''expense''])
      then Some body else None)"

text \<open>A handler returns the status of its response and the store. The user is always 1. In a
  call \<open>now\<close> stands for the readings of the clock that become \<^verbatim>\<open>createdAt\<close> and
  \<^verbatim>\<open>lastUpdated\<close>; the dates of imported transactions have readings of their own (\<open>clock\<close>).\<close>

definition post_transaction :: "int \<Rightarrow> int \<Rightarrow> mem_storage \<Rightarrow> insert_transaction \<Rightarrow> nat \<times> mem_storage" where
  "post_transaction tza now s body =
     (case insertTransactionSchema_parse body of
        None \<Rightarrow> (400, s)
      | Some validatedData \<Rightarrow>
          (case createTransaction now s 1 validatedData of
             (transaction, s1) \<Rightarrow>
               (let transactionDate = Date_of_string (tx_date transaction)
                in (201, snd (generateMonthlySummary tza now s1 1
                                (getFullYear tza transactionDate)
                                (getMonth tza transactionDate + 1))))))"

text \<open>The path parameter is \<^verbatim>\<open>parseInt(req.params.id)\<close>; \<open>None\<close> is \<^verbatim>\<open>NaN\<close>.\<close>

definition put_transaction ::
  "int \<Rightarrow> int \<Rightarrow> mem_storage \<Rightarrow> int option \<Rightarrow> partial_transaction \<Rightarrow> nat \<times> mem_storage" where
  "put_transaction tza now s idParam body =
     (case idParam of
        None \<Rightarrow> (400, s)
      | Some i \<Rightarrow>
          (case getTransactionById s i of
             None \<Rightarrow> (404, s)
           | Some transaction \<Rightarrow>
               (case insertTransactionSchema_partial_parse body of
                  None \<Rightarrow> (400, s)
                | Some validatedData \<Rightarrow>
                    (case updateTransaction s i validatedData of
                       (updatedTransaction, s1) \<Rightarrow>
                         (let transactionDate = Date_of_string
                                (case updatedTransaction of
                                   Some u \<Rightarrow> tx_date u | None \<Rightarrow> tx_date transaction)
                          in (200, snd (generateMonthlySummary tza now s1 (tx_userId transaction)
                                          (getFullYear tza transactionDate)
                                          (getMonth tza transactionDate + 1))))))))"

definition delete_transaction :: "int \<Rightarrow> int \<Rightarrow> mem_storage \<Rightarrow> int option \<Rightarrow> nat \<times> mem_storage" where
  "delete_transaction tza now s idParam =
     (case idParam of
        None \<Rightarrow> (400, s)
      | Some i \<Rightarrow>
          (case getTransactionById s i of
             None \<Rightarrow> (404, s)
           | Some transaction \<Rightarrow>
               (case deleteTransaction s i of
                  (success, s1) \<Rightarrow>
                    (if success
                     then (let transactionDate = Date_of_string (tx_date transaction)
                           in (204, snd (generateMonthlySummary tza now s1 (tx_userId transaction)
                                           (getFullYear tza transactionDate)
                                           (getMonth tza transactionDate + 1))))
                     else (500, s1)))))"

text \<open>The loop that saves the extracted transactions. A \<^verbatim>\<open>ZodError\<close> leaves the loop with
  the transactions saved so far in the store (\<open>None\<close>).\<close>

fun save_extracted ::
  "int \<Rightarrow> mem_storage \<Rightarrow> transaction list \<Rightarrow> insert_transaction list
     \<Rightarrow> transaction list option \<times> mem_storage" where
  "save_extracted now s saved [] = (Some saved, s)"
| "save_extracted now s saved (t # ts) =
     (case insertTransactionSchema_parse (t\<lparr>it_pdfSource := Some (Some ''Uploaded PDF'')\<rparr>) of
        None \<Rightarrow> (None, s)
      | Some transactionData \<Rightarrow>
          (case createTransaction now s 1 transactionData of
             (created, s') \<Rightarrow> save_extracted now s' (saved @ [created]) ts))"

text \<open>\<^verbatim>\<open>POST /api/upload-statement\<close>. The PDF library is the parameter \<open>extractPdfContent\<close>,
  from the content of the request to the text of the document; \<open>None\<close> is its exception.
  Every exception ends in the handler's \<^verbatim>\<open>catch\<close>, status 500.\<close>

definition upload_statement ::
  "(string \<Rightarrow> string option) \<Rightarrow> int \<Rightarrow> (nat \<Rightarrow> int) \<Rightarrow> int \<Rightarrow> mem_storage \<Rightarrow> string option
     \<Rightarrow> nat \<times> mem_storage" where
  "upload_statement extractPdfContent tza clock now s pdfContent =
     (case pdfContent of
        None \<Rightarrow> (400, s)
      | Some content \<Rightarrow>
          (if content = [] then (400, s)
           else (case extractPdfContent content of
                   None \<Rightarrow> (500, s)
                 | Some extractedText \<Rightarrow>
                     (let extractedTransactions = extractTransactions clock extractedText
                      in if length extractedTransactions = 0 then (400, s)
                         else (case save_extracted now s [] extractedTransactions of
                                 (None, s1) \<Rightarrow> (500, s1)
                               | (Some savedTransactions, s1) \<Rightarrow>
                                   (case savedTransactions of
                                      [] \<Rightarrow> (500, s1)
                                    | first # _ \<Rightarrow>
                                        (let firstDate = Date_of_string (tx_date first)
                                         in (201, snd (generateMonthlySummary tza now s1 1
                                                         (getFullYear tza firstDate)
                                                         (getMonth tza firstDate + 1))))))))))"

subsection \<open>Notions used to state the properties\<close>

text \<open>A well-formed map of the store: every entry is filed under its own identifier, no key
  occurs twice, and every key is below the counter that issues the next identifier.\<close>

definition keys_ok :: "('a \<Rightarrow> int) \<Rightarrow> int \<Rightarrow> (int \<times> 'a) list \<Rightarrow> bool" where
  "keys_ok ident next_id m = (distinct (map fst m) \<and> list_all (\<lambda>(k, v). ident v = k \<and> k < next_id) m)"

definition store_ok :: "mem_storage \<Rightarrow> bool" where
  "store_ok s = (keys_ok tx_id (transactionId s) (transactions s)
     \<and> keys_ok ms_id (summaryId s) (monthlySummaries s)
     \<and> keys_ok cb_id (breakdownId s) (categoryBreakdowns s))"

text \<open>The rows that a run of \<^verbatim>\<open>createCategoryBreakdown\<close> makes from the counter \<open>n\<close> on.\<close>

fun fresh_rows :: "int \<Rightarrow> int \<Rightarrow> insert_category_breakdown list \<Rightarrow> category_breakdown list" where
  "fresh_rows n sid [] = []"
| "fresh_rows n sid (b # bs) =
     \<lparr>cb_id = n, cb_summaryId = sid, cb_category = icb_category b,
      cb_amount = icb_amount b, cb_percentage = icb_percentage b\<rparr> # fresh_rows (n + 1) sid bs"

text \<open>A breakdown row without its generated identifier.\<close>

definition breakdown_values :: "category_breakdown \<Rightarrow> int \<times> string \<times> number \<times> number" where
  "breakdown_values b = (cb_summaryId b, cb_category b, cb_amount b, cb_percentage b)"

text \<open>The totals of a list of transactions, written as sums.\<close>

definition income_total :: "transaction list \<Rightarrow> number" where
  "income_total txs = (\<Sum>t\<leftarrow>filter (\<lambda>t. tx_type t = ''income'') txs. tx_amount t)"

definition expenses_total :: "transaction list \<Rightarrow> number" where
  "expenses_total txs = (\<Sum>t\<leftarrow>filter (\<lambda>t. tx_type t = ''expense'') txs. \<bar>tx_amount t\<bar>)"

definition category_expense :: "transaction list \<Rightarrow> string \<Rightarrow> number" where
  "category_expense txs c =
     (\<Sum>t\<leftarrow>filter (\<lambda>t. tx_type t = ''expense'' \<and> tx_category t = c) txs. \<bar>tx_amount t\<bar>)"

text \<open>The breakdowns that the aggregation hands to \<^verbatim>\<open>updateCategoryBreakdowns\<close>.\<close>

definition month_breakdowns :: "transaction list \<Rightarrow> insert_category_breakdown list" where
  "month_breakdowns txs =
     map (\<lambda>(category, amount).
            \<lparr>icb_category = category, icb_amount = amount,
             icb_percentage = (amount / expenses_total txs) * 100\<rparr>)
       (filter (\<lambda>(_, amount). amount > 0) (expensesByCategory txs))"

subsection \<open>Scenarios\<close>

text \<open>The scenario of the specification: an income of 1000 on 2024-03-05 and an expense of 200
  for food on 2024-03-10, both posted by user 1 on a server that runs in UTC.\<close>

definition march_income :: insert_transaction where
  "march_income = \<lparr>it_date = 1709596800000, it_description = ''Pay'', it_category = ''Income'',
     it_amount = 1000, it_type = ''income'', it_pdfSource = None\<rparr>"

definition march_food :: insert_transaction where
  "march_food = \<lparr>it_date = 1710028800000, it_description = ''Lunch'', it_category = ''Food'',
     it_amount = - 200, it_type = ''expense'', it_pdfSource = None\<rparr>"

definition march_store :: mem_storage where
  "march_store = snd (post_transaction 0 20 (snd (post_transaction 0 10 MemStorage_new march_income)) march_food)"

text \<open>A month whose only transaction was posted and then deleted.\<close>

definition emptied_store :: mem_storage where
  "emptied_store = snd (delete_transaction 0 20 (snd (post_transaction 0 10 MemStorage_new march_food)) (Some 1))"

definition march_transactions :: "transaction list" where
  "march_transactions =
     [\<lparr>tx_id = 1, tx_userId = 1, tx_date = \<lparr>d_year = 2024, d_month = 3, d_day = 5\<rparr>,
       tx_description = ''Pay'', tx_category = ''Income'', tx_amount = 1000, tx_type = ''income'',
       tx_pdfSource = None, tx_createdAt = 10\<rparr>,
      \<lparr>tx_id = 2, tx_userId = 1, tx_date = \<lparr>d_year = 2024, d_month = 3, d_day = 10\<rparr>,
       tx_description = ''Lunch'', tx_category = ''Food'', tx_amount = - 200, tx_type = ''expense'',
       tx_pdfSource = None, tx_createdAt = 20\<rparr>]"



text \<open>The body of a \<^verbatim>\<open>PUT\<close> that changes the amount only.\<close>

definition new_amount :: partial_transaction where
  "new_amount = \<lparr>pt_date = None, pt_description = None, pt_category = None,
     pt_amount = Some (- 250), pt_type = None, pt_pdfSource = None\<rparr>"

text \<open>Two transactions of user 1 on both sides of the end of March 2024.\<close>

definition boundary_store :: mem_storage where
  "boundary_store =
     snd (createTransaction 20
            (snd (createTransaction 10 MemStorage_new 1 (march_food\<lparr>it_date := 1711843200000\<rparr>)))
            1 (march_food\<lparr>it_date := 1711929600000\<rparr>))"

text \<open>A number with at most two decimal places.\<close>

definition two_decimals :: "number \<Rightarrow> bool" where
  "two_decimals x = (of_int \<lfloor>x * 100\<rfloor> = x * 100)"

text \<open>The text of a statement without any amount, and a PDF library that returns it.\<close>

definition plain_text :: string where
  "plain_text = ''Uber 3.50'' @ [CHR 0x0A] @ ''Rent 1200 paid''"

definition plain_pdf :: "string \<Rightarrow> string option" where
  "plain_pdf content = Some plain_text"



definition month_end_clock :: "nat \<Rightarrow> int" where
  "month_end_clock k = (if k = 0 then 1711929599999 else 1711929600000)"


text \<open>The first and the second recompute of March 2024 on \<open>march_store\<close>.\<close>

definition march_recomputed :: "monthly_summary option \<times> mem_storage" where
  "march_recomputed = generateMonthlySummary 0 40 march_store 1 2024 3"

definition march_recomputed_again :: "monthly_summary option \<times> mem_storage" where
  "march_recomputed_again = generateMonthlySummary 0 50 (snd march_recomputed) 1 2024 3"

subsection \<open>The stores a server can reach\<close>

text \<open>From the empty store of the constructor, by any sequence of the four handlers that
  write.\<close>

inductive reachable :: "(string \<Rightarrow> string option) \<Rightarrow> int \<Rightarrow> mem_storage \<Rightarrow> bool"
  for extractPdfContent :: "string \<Rightarrow> string option" and tza :: int where
  start: "reachable extractPdfContent tza MemStorage_new"
| post: "reachable extractPdfContent tza s \<Longrightarrow>
     reachable extractPdfContent tza (snd (post_transaction tza now s body))"
| put: "reachable extractPdfContent tza s \<Longrightarrow>
     reachable extractPdfContent tza (snd (put_transaction tza now s idParam partial_body))"
| delete: "reachable extractPdfContent tza s \<Longrightarrow>
     reachable extractPdfContent tza (snd (delete_transaction tza now s idParam))"
| upload: "reachable extractPdfContent tza s \<Longrightarrow>
     reachable extractPdfContent tza
       (snd (upload_statement extractPdfContent tza clock now s pdfContent))"

subsection \<open>Summaries that follow the transactions\<close>

text \<open>The month that the handlers recompute for a date-only string: its local year and month;
  and the month of a transaction.\<close>

definition date_month :: "int \<Rightarrow> isodate \<Rightarrow> int \<times> int" where
  "date_month tza d =
     (let transactionDate = Date_of_string d
      in (getFullYear tza transactionDate, getMonth tza transactionDate + 1))"

definition month_of :: "int \<Rightarrow> transaction \<Rightarrow> int \<times> int" where
  "month_of tza t = date_month tza (tx_date t)"


text \<open>
  A handler writes transactions into or out of some months and then recomputes one month.
  The months (user, year, month) that were written and not recomputed since are kept in a
  set of flags:
  \<^item> \<^verbatim>\<open>POST\<close> and \<^verbatim>\<open>DELETE\<close> write the month of their transaction and recompute it: its flag is
    cleared;
  \<^item> \<^verbatim>\<open>PUT\<close> writes the month the transaction was in and the month it is in afterwards, and
    recomputes the latter: the old month is flagged and the flag of the new month is cleared
    (when the month does not change, its flag is cleared);
  \<^item> the import writes the month of every transaction it saves and recomputes the month of
    the first: the other months are flagged and the flag of the first is cleared.
  A call that ends before it writes leaves the flags as they are.
\<close>

type_synonym flags = "(int \<times> int \<times> int) set"

definition post_flags :: "int \<Rightarrow> insert_transaction \<Rightarrow> flags \<Rightarrow> flags" where
  "post_flags tza body D =
     (case insertTransactionSchema_parse body of
        None \<Rightarrow> D
      | Some validatedData \<Rightarrow> D - {(1, date_month tza (dateToString (it_date validatedData)))})"

definition put_flags :: "int \<Rightarrow> mem_storage \<Rightarrow> int option \<Rightarrow> partial_transaction \<Rightarrow> flags \<Rightarrow> flags" where
  "put_flags tza s idParam body D =
     (case idParam of
        None \<Rightarrow> D
      | Some i \<Rightarrow>
          (case getTransactionById s i of
             None \<Rightarrow> D
           | Some t \<Rightarrow>
               (case insertTransactionSchema_partial_parse body of
                  None \<Rightarrow> D
                | Some validatedData \<Rightarrow>
                    (D \<union> {(tx_userId t, month_of tza t)})
                      - {(tx_userId t, month_of tza (apply_update validatedData t))})))"

definition delete_flags :: "int \<Rightarrow> mem_storage \<Rightarrow> int option \<Rightarrow> flags \<Rightarrow> flags" where
  "delete_flags tza s idParam D =
     (case idParam of
        None \<Rightarrow> D
      | Some i \<Rightarrow>
          (case getTransactionById s i of
             None \<Rightarrow> D
           | Some t \<Rightarrow> D - {(tx_userId t, month_of tza t)}))"

definition upload_flags ::
  "(string \<Rightarrow> string option) \<Rightarrow> int \<Rightarrow> (nat \<Rightarrow> int) \<Rightarrow> string option \<Rightarrow> flags \<Rightarrow> flags" where
  "upload_flags extractPdfContent tza clock pdfContent D =
     (case pdfContent of
        None \<Rightarrow> D
      | Some content \<Rightarrow>
          (if content = [] then D
           else (case extractPdfContent content of
                   None \<Rightarrow> D
                 | Some extractedText \<Rightarrow>
                     (case extractTransactions clock extractedText of
                        [] \<Rightarrow> D
                      | first # others \<Rightarrow>
                          (D \<union> (\<lambda>t. (1, date_month tza (dateToString (it_date t))))
                                  ` set (first # others))
                            - {(1, date_month tza (dateToString (it_date first)))}))))"

text \<open>The stores that the handlers reach from the empty store, each with its flags.\<close>

inductive tracked :: "(string \<Rightarrow> string option) \<Rightarrow> int \<Rightarrow> mem_storage \<Rightarrow> flags \<Rightarrow> bool"
  for extractPdfContent :: "string \<Rightarrow> string option" and tza :: int where
  start: "tracked extractPdfContent tza MemStorage_new {}"
| post: "tracked extractPdfContent tza s D \<Longrightarrow>
     tracked extractPdfContent tza (snd (post_transaction tza now s body)) (post_flags tza body D)"
| put: "tracked extractPdfContent tza s D \<Longrightarrow>
     tracked extractPdfContent tza (snd (put_transaction tza now s idParam partial_body))
       (put_flags tza s idParam partial_body D)"
| delete: "tracked extractPdfContent tza s D \<Longrightarrow>
     tracked extractPdfContent tza (snd (delete_transaction tza now s idParam))
       (delete_flags tza s idParam D)"
| upload: "tracked extractPdfContent tza s D \<Longrightarrow>
     tracked extractPdfContent tza
       (snd (upload_statement extractPdfContent tza clock now s pdfContent))
       (upload_flags extractPdfContent tza clock pdfContent D)"


section \<open>Properties\<close>

subsection \<open>Maps of the store\<close>

lemma update_fresh: "k \<notin> fst ` set m \<Longrightarrow> AList.update k v m = m @ [(k, v)]"
  by (induction m) auto

lemma keys_okD:
  assumes "keys_ok ident n m" "(k, v) \<in> set m"
  shows "ident v = k" "k < n"
  using assms by (auto simp: keys_ok_def list_all_iff)

lemma keys_ok_fresh: "keys_ok ident n m \<Longrightarrow> n \<notin> fst ` set m"
  by (auto simp: keys_ok_def list_all_iff)

lemma keys_ok_update_fresh:
  assumes "keys_ok ident n m" "ident v = n"
  shows "keys_ok ident (n + 1) (AList.update n v m)"
proof -
  have "n \<notin> fst ` set m" using assms(1) by (rule keys_ok_fresh)
  then have "AList.update n v m = m @ [(n, v)]" by (rule update_fresh)
  moreover have "keys_ok ident (n + 1) (m @ [(n, v)])"
    using assms \<open>n \<notin> fst ` set m\<close> by (auto simp: keys_ok_def list_all_iff)
  ultimately show ?thesis by simp
qed

lemma keys_ok_update_same:
  assumes "keys_ok ident n m" "k \<in> fst ` set m" "ident v = k"
  shows "keys_ok ident n (AList.update k v m)"
proof -
  have "set (AList.update k v m) \<subseteq> set m \<union> {(k, v)}"
    by (induction m) auto
  moreover have "k < n" using assms(1,2) by (auto dest: keys_okD(2)[OF assms(1)])
  ultimately show ?thesis
    using assms by (auto simp: keys_ok_def list_all_iff distinct_update)
qed

lemma keys_ok_delete: "keys_ok ident n m \<Longrightarrow> keys_ok ident n (AList.delete k m)"
  by (auto simp: keys_ok_def list_all_iff distinct_delete) (auto simp: AList.delete_eq)

lemma foldl_delete_filter:
  "foldl (\<lambda>m b. AList.delete (ident b) m) m bs = filter (\<lambda>(k, v). k \<notin> ident ` set bs) m"
proof (induction bs arbitrary: m)
  case Nil
  then show ?case by simp
next
  case (Cons b bs)
  have "foldl (\<lambda>m b. AList.delete (ident b) m) (AList.delete (ident b) m) bs
          = filter (\<lambda>(k, v). k \<notin> ident ` set bs) (AList.delete (ident b) m)"
    by (rule Cons.IH)
  also have "\<dots> = filter (\<lambda>(k, v). k \<notin> ident ` set (b # bs)) m"
    by (auto simp: AList.delete_eq intro: filter_cong)
  finally show ?case by simp
qed

lemma delete_matching:
  assumes "keys_ok ident n m"
  shows "foldl (\<lambda>m b. AList.delete (ident b) m) m (filter P (map snd m)) = filter (\<lambda>(k, v). \<not> P v) m"
proof -
  have "\<And>k v. (k, v) \<in> set m \<Longrightarrow> (k \<in> ident ` set (filter P (map snd m))) = P v"
  proof -
    fix k v assume kv: "(k, v) \<in> set m"
    show "(k \<in> ident ` set (filter P (map snd m))) = P v"
    proof
      assume "k \<in> ident ` set (filter P (map snd m))"
      then obtain k' v' where h: "(k', v') \<in> set m" "P v'" "ident v' = k" by auto
      then have "k' = k" using keys_okD(1)[OF assms h(1)] by simp
      moreover have "distinct (map fst m)" using assms by (simp add: keys_ok_def)
      ultimately have "v' = v" using kv h(1) by (metis eq_key_imp_eq_value)
      then show "P v" using h by simp
    next
      assume "P v"
      moreover have "ident v = k" using keys_okD(1)[OF assms kv] .
      ultimately show "k \<in> ident ` set (filter P (map snd m))" using kv by force
    qed
  qed
  then show ?thesis
    unfolding foldl_delete_filter by (intro filter_cong) auto
qed


lemma createBreakdowns_eq:
  assumes "keys_ok cb_id (breakdownId s) (categoryBreakdowns s)"
  shows "createBreakdowns s sid res bs =
           (res @ fresh_rows (breakdownId s) sid bs,
            s\<lparr>breakdownId := breakdownId s + int (length bs),
              categoryBreakdowns := categoryBreakdowns s
                 @ map (\<lambda>b. (cb_id b, b)) (fresh_rows (breakdownId s) sid bs)\<rparr>)"
  using assms
proof (induction bs arbitrary: s res)
  case Nil
  then show ?case by simp
next
  case (Cons b bs)
  let ?n = "breakdownId s"
  let ?row = "\<lparr>cb_id = ?n, cb_summaryId = sid, cb_category = icb_category b,
      cb_amount = icb_amount b, cb_percentage = icb_percentage b\<rparr>"
  let ?s' = "s\<lparr>breakdownId := ?n + 1, categoryBreakdowns := categoryBreakdowns s @ [(?n, ?row)]\<rparr>"
  have fresh: "?n \<notin> fst ` set (categoryBreakdowns s)"
    using Cons.prems by (rule keys_ok_fresh)
  have step: "createCategoryBreakdown s sid b = (?row, ?s')"
    by (simp add: createCategoryBreakdown_def Let_def update_fresh[OF fresh])
  have "keys_ok cb_id (?n + 1) (AList.update ?n ?row (categoryBreakdowns s))"
    using Cons.prems by (rule keys_ok_update_fresh) simp
  then have ok': "keys_ok cb_id (breakdownId ?s') (categoryBreakdowns ?s')"
    by (simp add: update_fresh[OF fresh])
  show ?case
    by (simp add: step Cons.IH[OF ok'])
qed

lemma updateCategoryBreakdowns_eq:
  assumes "keys_ok cb_id (breakdownId s) (categoryBreakdowns s)"
  shows "updateCategoryBreakdowns s sid bs =
           (fresh_rows (breakdownId s) sid bs,
            s\<lparr>breakdownId := breakdownId s + int (length bs),
              categoryBreakdowns := filter (\<lambda>(k, v). cb_summaryId v \<noteq> sid) (categoryBreakdowns s)
                 @ map (\<lambda>b. (cb_id b, b)) (fresh_rows (breakdownId s) sid bs)\<rparr>)"
proof -
  let ?kept = "filter (\<lambda>(k, v). cb_summaryId v \<noteq> sid) (categoryBreakdowns s)"
  have del: "foldl (\<lambda>m b. AList.delete (cb_id b) m) (categoryBreakdowns s)
               (filter (\<lambda>b. cb_summaryId b = sid) (map snd (categoryBreakdowns s))) = ?kept"
    using delete_matching[OF assms, of "\<lambda>b. cb_summaryId b = sid"] by simp
  have "keys_ok cb_id (breakdownId s) ?kept"
    using assms by (auto simp: keys_ok_def list_all_iff distinct_map_filter)
  then have "keys_ok cb_id (breakdownId (s\<lparr>categoryBreakdowns := ?kept\<rparr>))
               (categoryBreakdowns (s\<lparr>categoryBreakdowns := ?kept\<rparr>))"
    by simp
  from createBreakdowns_eq[OF this, of sid "[]" bs] show ?thesis
    by (simp add: updateCategoryBreakdowns_def del)
qed

lemma fresh_rows_summaryId: "b \<in> set (fresh_rows n sid bs) \<Longrightarrow> cb_summaryId b = sid"
  by (induction bs arbitrary: n) auto

lemma fresh_rows_id: "b \<in> set (fresh_rows n sid bs) \<Longrightarrow> n \<le> cb_id b \<and> cb_id b < n + int (length bs)"
  by (induction bs arbitrary: n) force+

lemma fresh_rows_distinct: "distinct (map cb_id (fresh_rows n sid bs))"
  by (induction bs arbitrary: n) (auto dest: fresh_rows_id)

lemma fresh_rows_values:
  "map breakdown_values (fresh_rows n sid bs)
     = map (\<lambda>b. (sid, icb_category b, icb_amount b, icb_percentage b)) bs"
  by (induction bs arbitrary: n) (auto simp: breakdown_values_def)

lemma filter_other_summary:
  "sid' \<noteq> sid \<Longrightarrow>
     filter (\<lambda>b. cb_summaryId b = sid') (map snd (filter (\<lambda>(k, v). cb_summaryId v \<noteq> sid) m))
       = filter (\<lambda>b. cb_summaryId b = sid') (map snd m)"
  by (induction m) auto

lemma getCategoryBreakdowns_after_update:
  assumes "keys_ok cb_id (breakdownId s) (categoryBreakdowns s)"
  shows "getCategoryBreakdowns (snd (updateCategoryBreakdowns s sid bs)) sid'
           = (if sid' = sid then fresh_rows (breakdownId s) sid bs else getCategoryBreakdowns s sid')"
proof -
  have a: "filter (\<lambda>b. cb_summaryId b = sid) (fresh_rows (breakdownId s) sid bs) = fresh_rows (breakdownId s) sid bs"
    by (auto intro: filter_True dest: fresh_rows_summaryId)
  have b: "sid' \<noteq> sid \<Longrightarrow> filter (\<lambda>b. cb_summaryId b = sid') (fresh_rows (breakdownId s) sid bs) = []"
    by (auto simp: filter_empty_conv dest: fresh_rows_summaryId)
  have c: "map snd (map (\<lambda>b. (cb_id b, b)) (fresh_rows (breakdownId s) sid bs)) = fresh_rows (breakdownId s) sid bs"
    by (simp add: comp_def)
  have d: "filter (\<lambda>b. cb_summaryId b = sid) (map snd (filter (\<lambda>(k, v). cb_summaryId v \<noteq> sid) (categoryBreakdowns s))) = []"
    by (auto simp: filter_empty_conv)
  have e: "sid' \<noteq> sid \<Longrightarrow> filter (\<lambda>b. cb_summaryId b = sid') (map snd (filter (\<lambda>(k, v). cb_summaryId v \<noteq> sid) (categoryBreakdowns s)))
        = filter (\<lambda>b. cb_summaryId b = sid') (map snd (categoryBreakdowns s))"
    by (rule filter_other_summary)
  show ?thesis
    by (simp add: updateCategoryBreakdowns_eq[OF assms] getCategoryBreakdowns_def a b c d e del: map_map)
qed


lemma update_mem: "(k, v) \<in> set (AList.update k v m)"
  by (induction m) auto

lemma keys_ok_Cons:
  "keys_ok ident n ((k, v) # m) = (ident v = k \<and> k < n \<and> k \<notin> fst ` set m \<and> keys_ok ident n m)"
  by (auto simp: keys_ok_def)

lemma find_update_existing:
  assumes "keys_ok ident n m" "find P (map snd m) = Some e" "P e'"
  shows "find P (map snd (AList.update (ident e) e' m)) = Some e' \<and> ident e \<in> fst ` set m"
  using assms
proof (induction m)
  case Nil
  then show ?case by simp
next
  case (Cons kv m)
  obtain k v where kv: "kv = (k, v)" by (cases kv)
  from Cons.prems(1) have hd: "ident v = k" "k \<notin> fst ` set m" and tl: "keys_ok ident n m"
    by (simp_all add: kv keys_ok_Cons)
  show ?case
  proof (cases "P v")
    case True
    then have "e = v" using Cons.prems(2) by (simp add: kv)
    then show ?thesis using hd \<open>P e'\<close> by (simp add: kv)
  next
    case False
    then have f: "find P (map snd m) = Some e" using Cons.prems(2) by (simp add: kv)
    then have "e \<in> snd ` set m" by (auto simp: find_Some_iff)
    then obtain k' where "(k', e) \<in> set m" by auto
    then have "ident e \<in> fst ` set m" using keys_okD(1)[OF tl] by force
    then have "ident e \<noteq> k" using hd(2) by blast
    then show ?thesis using Cons.IH[OF tl f \<open>P e'\<close>] False by (simp add: kv)
  qed
qed

lemma find_update_new:
  assumes "find P (map snd m) = None" "P e'" "k \<notin> fst ` set m"
  shows "find P (map snd (AList.update k e' m)) = Some e'"
proof -
  have "find P (xs @ [e']) = Some e'" if "find P xs = None" for xs
    using that \<open>P e'\<close> by (induction xs) (auto split: if_splits)
  then show ?thesis using assms by (simp add: update_fresh)
qed

lemma createOrUpdate_result:
  assumes "createOrUpdateMonthlySummary now s u d = (summ, s1)"
  shows "ms_userId summ = u" "ms_year summ = ims_year d" "ms_month summ = ims_month d"
    "ms_totalIncome summ = ims_totalIncome d" "ms_totalExpenses summ = ims_totalExpenses d"
    "ms_netBalance summ = ims_netBalance d" "ms_lastUpdated summ = now"
    "(ms_id summ, summ) \<in> set (monthlySummaries s1)"
    "transactions s1 = transactions s" "transactionId s1 = transactionId s"
    "categoryBreakdowns s1 = categoryBreakdowns s" "breakdownId s1 = breakdownId s"
  using assms
  by (auto simp: createOrUpdateMonthlySummary_def getMonthlySummaryByMonth_def Let_def update_mem
      find_Some_iff split: option.splits)

lemma createOrUpdate_ok:
  assumes "keys_ok ms_id (summaryId s) (monthlySummaries s)"
    and "createOrUpdateMonthlySummary now s u d = (summ, s1)"
  shows "keys_ok ms_id (summaryId s1) (monthlySummaries s1)"
    and "getMonthlySummaryByMonth s1 u (ims_year d) (ims_month d) = Some summ"
proof -
  let ?P = "\<lambda>summary. ms_userId summary = u \<and> ms_year summary = ims_year d \<and> ms_month summary = ims_month d"
  have P: "?P summ" using createOrUpdate_result(1-3)[OF assms(2)] by simp
  show "keys_ok ms_id (summaryId s1) (monthlySummaries s1)"
    and "getMonthlySummaryByMonth s1 u (ims_year d) (ims_month d) = Some summ"
  proof (atomize(full), cases "find ?P (map snd (monthlySummaries s))")
    case None
    then have eq: "summ = \<lparr>ms_id = summaryId s, ms_userId = u,
                 ms_year = ims_year d, ms_month = ims_month d,
                 ms_totalIncome = ims_totalIncome d,
                 ms_totalExpenses = ims_totalExpenses d,
                 ms_netBalance = ims_netBalance d,
                 ms_lastUpdated = now\<rparr>"
      and s1: "s1 = s\<lparr>summaryId := summaryId s + 1,
                 monthlySummaries := AList.update (summaryId s) summ (monthlySummaries s)\<rparr>"
      using assms(2) by (auto simp: createOrUpdateMonthlySummary_def getMonthlySummaryByMonth_def Let_def)
    have id: "ms_id summ = summaryId s" by (simp add: eq)
    have "keys_ok ms_id (summaryId s + 1) (AList.update (summaryId s) summ (monthlySummaries s))"
      using assms(1) id by (rule keys_ok_update_fresh)
    moreover have "find ?P (map snd (AList.update (summaryId s) summ (monthlySummaries s))) = Some summ"
      using None P keys_ok_fresh[OF assms(1)] by (rule find_update_new)
    ultimately show "keys_ok ms_id (summaryId s1) (monthlySummaries s1)
        \<and> getMonthlySummaryByMonth s1 u (ims_year d) (ims_month d) = Some summ"
      by (simp add: s1 getMonthlySummaryByMonth_def)
  next
    case (Some existing)
    then have eq: "summ = existing\<lparr>ms_year := ims_year d,
                 ms_month := ims_month d,
                 ms_totalIncome := ims_totalIncome d,
                 ms_totalExpenses := ims_totalExpenses d,
                 ms_netBalance := ims_netBalance d,
                 ms_lastUpdated := now\<rparr>"
      and s1: "s1 = s\<lparr>monthlySummaries := AList.update (ms_id existing) summ (monthlySummaries s)\<rparr>"
      using assms(2) by (auto simp: createOrUpdateMonthlySummary_def getMonthlySummaryByMonth_def Let_def)
    have id: "ms_id summ = ms_id existing" by (simp add: eq)
    from find_update_existing[OF assms(1) Some P]
    have f: "find ?P (map snd (AList.update (ms_id existing) summ (monthlySummaries s))) = Some summ"
      and mem: "ms_id existing \<in> fst ` set (monthlySummaries s)" by simp_all
    have "keys_ok ms_id (summaryId s) (AList.update (ms_id existing) summ (monthlySummaries s))"
      using assms(1) mem id by (rule keys_ok_update_same)
    then show "keys_ok ms_id (summaryId s1) (monthlySummaries s1)
        \<and> getMonthlySummaryByMonth s1 u (ims_year d) (ims_month d) = Some summ"
      using f by (simp add: s1 getMonthlySummaryByMonth_def)
  qed
qed

subsection \<open>The expense tally\<close>

lemma foldl_sum:
  fixes a :: rat
  shows "foldl (\<lambda>sum t. sum + f t) a xs = a + sum_list (map f xs)"
  by (induction xs arbitrary: a) (auto simp: algebra_simps)

lemma get_or_zero_update:
  "get_or_zero (AList.update k v m) c = (if c = k then v else get_or_zero m c)"
  by (simp add: get_or_zero_def update_conv')

lemma sum_update:
  "sum_list (map snd (AList.update k v m)) = sum_list (map snd m) - get_or_zero m k + v"
  by (induction m) (auto simp: get_or_zero_def)

lemma tally_value:
  "get_or_zero (foldl (\<lambda>m t. AList.update (tx_category t) (get_or_zero m (tx_category t) + \<bar>tx_amount t\<bar>) m) m ts) c
     = get_or_zero m c + (\<Sum>t\<leftarrow>filter (\<lambda>t. tx_category t = c) ts. \<bar>tx_amount t\<bar>)"
  by (induction ts arbitrary: m) (auto simp: get_or_zero_update)


lemma tally_distinct:
  "distinct (map fst m) \<Longrightarrow>
   distinct (map fst (foldl (\<lambda>m t. AList.update (tx_category t) (get_or_zero m (tx_category t) + \<bar>tx_amount t\<bar>) m) m ts))"
  by (induction ts arbitrary: m) (auto simp: distinct_update)

lemma tally_sum:
  "sum_list (map snd (foldl (\<lambda>m t. AList.update (tx_category t) (get_or_zero m (tx_category t) + \<bar>tx_amount t\<bar>) m) m ts))
     = sum_list (map snd m) + (\<Sum>t\<leftarrow>ts. \<bar>tx_amount t\<bar>)"
  by (induction ts arbitrary: m) (auto simp: sum_update)

lemma init_categories:
  "foldl (\<lambda>m cat. AList.update cat 0 m) [] categories = map (\<lambda>c. (c, 0::rat)) categories"
  by (simp add: categories_def)

lemma distinct_categories: "distinct categories"
  by (simp add: categories_def)

lemma expensesByCategory_distinct: "distinct (map fst (expensesByCategory txs))"
  unfolding expensesByCategory_def init_categories
  by (rule tally_distinct) (simp add: comp_def distinct_categories)


lemma expensesByCategory_get:
  "get_or_zero (expensesByCategory txs) c = category_expense txs c"
proof -
  have "get_or_zero (map (\<lambda>c. (c, 0::rat)) categories) c = 0"
    by (auto simp: get_or_zero_def map_of_map_restrict restrict_map_def split: option.splits)
  then show ?thesis
    unfolding expensesByCategory_def init_categories tally_value category_expense_def
    by (simp add: conj_commute)
qed

lemma expensesByCategory_value:
  assumes "(c, a) \<in> set (expensesByCategory txs)"
  shows "a = category_expense txs c"
proof -
  have "map_of (expensesByCategory txs) c = Some a"
    using assms expensesByCategory_distinct by (simp add: map_of_eq_Some_iff)
  then have "get_or_zero (expensesByCategory txs) c = a" by (simp add: get_or_zero_def)
  then show ?thesis by (simp add: expensesByCategory_get)
qed

lemma expensesByCategory_sum:
  "sum_list (map snd (expensesByCategory txs)) = expenses_total txs"
  unfolding expensesByCategory_def init_categories tally_sum expenses_total_def
  by (simp add: comp_def)

lemma category_expense_nonneg: "0 \<le> category_expense txs c"
  unfolding category_expense_def by (rule sum_list_nonneg) auto



lemma sum_positive_part:
  fixes xs :: "('a \<times> rat) list"
  assumes "\<forall>a \<in> snd ` set xs. 0 \<le> a"
  shows "sum_list (map snd (filter (\<lambda>(_, a). a > 0) xs)) = sum_list (map snd xs)"
  using assms by (induction xs) (auto simp: not_less)

lemma month_breakdowns_amounts:
  "(\<Sum>b\<leftarrow>month_breakdowns txs. icb_amount b) = expenses_total txs"
proof -
  have "(\<Sum>b\<leftarrow>month_breakdowns txs. icb_amount b)
          = sum_list (map snd (filter (\<lambda>(_, a). a > 0) (expensesByCategory txs)))"
    by (simp add: month_breakdowns_def comp_def case_prod_unfold)
  also have "\<dots> = sum_list (map snd (expensesByCategory txs))"
    by (rule sum_positive_part) (auto dest!: expensesByCategory_value simp: category_expense_nonneg)
  finally show ?thesis by (simp add: expensesByCategory_sum)
qed

lemma month_breakdowns_percentages:
  assumes "0 < expenses_total txs"
  shows "(\<Sum>b\<leftarrow>month_breakdowns txs. icb_percentage b) = 100"
proof -
  have "(\<Sum>b\<leftarrow>month_breakdowns txs. icb_percentage b)
          = (\<Sum>b\<leftarrow>month_breakdowns txs. icb_amount b * (100 / expenses_total txs))"
    by (rule arg_cong[where f = sum_list])
       (auto simp: month_breakdowns_def)
  also have "\<dots> = (\<Sum>b\<leftarrow>month_breakdowns txs. icb_amount b) * (100 / expenses_total txs)"
    by (rule sum_list_mult_const)
  finally show ?thesis using assms by (simp add: month_breakdowns_amounts)
qed


subsection \<open>The effect of a recompute\<close>

lemma createBreakdowns_frame:
  "transactions (snd (createBreakdowns s sid res bs)) = transactions s
   \<and> transactionId (snd (createBreakdowns s sid res bs)) = transactionId s
   \<and> monthlySummaries (snd (createBreakdowns s sid res bs)) = monthlySummaries s
   \<and> summaryId (snd (createBreakdowns s sid res bs)) = summaryId s"
  by (induction bs arbitrary: s res) (auto simp: createCategoryBreakdown_def Let_def)

lemma updateCategoryBreakdowns_frame:
  "transactions (snd (updateCategoryBreakdowns s sid bs)) = transactions s"
  "transactionId (snd (updateCategoryBreakdowns s sid bs)) = transactionId s"
  "monthlySummaries (snd (updateCategoryBreakdowns s sid bs)) = monthlySummaries s"
  "summaryId (snd (updateCategoryBreakdowns s sid bs)) = summaryId s"
  by (simp_all add: updateCategoryBreakdowns_def Let_def createBreakdowns_frame)

lemma keys_ok_after_update:
  assumes "keys_ok cb_id n m"
  shows "keys_ok cb_id (n + int (length bs))
           (filter (\<lambda>(k, v). cb_summaryId v \<noteq> sid) m @ map (\<lambda>b. (cb_id b, b)) (fresh_rows n sid bs))"
proof -
  let ?kept = "filter (\<lambda>(k, v). cb_summaryId v \<noteq> sid) m"
  let ?rows = "fresh_rows n sid bs"
  have kept: "distinct (map fst ?kept)" "\<And>k v. (k, v) \<in> set ?kept \<Longrightarrow> cb_id v = k \<and> k < n"
    using assms by (auto simp: keys_ok_def list_all_iff distinct_map_filter)
  have new: "map fst (map (\<lambda>b. (cb_id b, b)) ?rows) = map cb_id ?rows"
    by (simp add: comp_def)
  have "fst ` set ?kept \<inter> cb_id ` set ?rows = {}"
    using kept(2) fresh_rows_id[of _ n sid bs] by fastforce
  then have "distinct (map fst (?kept @ map (\<lambda>b. (cb_id b, b)) ?rows))"
    using kept(1) fresh_rows_distinct[of n sid bs] by (simp add: new del: map_map)
  moreover have "list_all (\<lambda>(k, v). cb_id v = k \<and> k < n + int (length bs))
                   (?kept @ map (\<lambda>b. (cb_id b, b)) ?rows)"
    using kept(2) fresh_rows_id[of _ n sid bs] by (fastforce simp: list_all_iff)
  ultimately show ?thesis by (simp add: keys_ok_def)
qed

lemma updateCategoryBreakdowns_ok:
  assumes "keys_ok cb_id (breakdownId s) (categoryBreakdowns s)"
  shows "keys_ok cb_id (breakdownId (snd (updateCategoryBreakdowns s sid bs)))
           (categoryBreakdowns (snd (updateCategoryBreakdowns s sid bs)))"
    and "breakdownId (snd (updateCategoryBreakdowns s sid bs)) = breakdownId s + int (length bs)"
  using keys_ok_after_update[OF assms, of bs sid]
  by (simp_all add: updateCategoryBreakdowns_eq[OF assms])

lemma generateMonthlySummary_nonempty:
  assumes "getTransactionsByMonth tza s u y m = txs" "txs \<noteq> []"
  shows "generateMonthlySummary tza now s u y m =
     (case createOrUpdateMonthlySummary now s u
             \<lparr>ims_year = y, ims_month = m, ims_totalIncome = income_total txs,
              ims_totalExpenses = expenses_total txs,
              ims_netBalance = income_total txs - expenses_total txs\<rparr> of
        (summary, s1) \<Rightarrow>
          (Some summary, snd (updateCategoryBreakdowns s1 (ms_id summary) (month_breakdowns txs))))"
  using assms
  by (simp add: generateMonthlySummary_def Let_def foldl_sum income_total_def expenses_total_def
      month_breakdowns_def)

lemma recompute_effect:
  assumes ok: "store_ok s"
    and txs: "getTransactionsByMonth tza s u y m = txs" "txs \<noteq> []"
  shows "\<exists>summ s'. generateMonthlySummary tza now s u y m = (Some summ, s')
      \<and> ms_userId summ = u \<and> ms_year summ = y \<and> ms_month summ = m
      \<and> ms_totalIncome summ = income_total txs \<and> ms_totalExpenses summ = expenses_total txs
      \<and> ms_netBalance summ = income_total txs - expenses_total txs \<and> ms_lastUpdated summ = now
      \<and> getMonthlySummaryByMonth s' u y m = Some summ
      \<and> (\<forall>sid. getCategoryBreakdowns s' sid =
            (if sid = ms_id summ then fresh_rows (breakdownId s) (ms_id summ) (month_breakdowns txs)
             else getCategoryBreakdowns s sid))
      \<and> transactions s' = transactions s \<and> store_ok s'"
proof -
  let ?d = "\<lparr>ims_year = y, ims_month = m, ims_totalIncome = income_total txs,
              ims_totalExpenses = expenses_total txs,
              ims_netBalance = income_total txs - expenses_total txs\<rparr>"
  obtain summ s1 where cu: "createOrUpdateMonthlySummary now s u ?d = (summ, s1)"
    by (cases "createOrUpdateMonthlySummary now s u ?d")
  let ?s' = "snd (updateCategoryBreakdowns s1 (ms_id summ) (month_breakdowns txs))"
  have gen: "generateMonthlySummary tza now s u y m = (Some summ, ?s')"
    by (simp add: generateMonthlySummary_nonempty[OF txs] cu)
  note r = createOrUpdate_result[OF cu]
  have ms: "keys_ok ms_id (summaryId s) (monthlySummaries s)"
    and cb: "keys_ok cb_id (breakdownId s) (categoryBreakdowns s)"
    and tx: "keys_ok tx_id (transactionId s) (transactions s)"
    using ok by (simp_all add: store_ok_def)
  have ms1: "keys_ok ms_id (summaryId s1) (monthlySummaries s1)"
    and look: "getMonthlySummaryByMonth s1 u y m = Some summ"
    using createOrUpdate_ok[OF ms cu] by simp_all
  have cb1: "keys_ok cb_id (breakdownId s1) (categoryBreakdowns s1)"
    using cb r(11,12) by simp
  have look': "getMonthlySummaryByMonth ?s' u y m = Some summ"
    using look by (simp add: getMonthlySummaryByMonth_def updateCategoryBreakdowns_frame)
  have rows: "\<forall>sid. getCategoryBreakdowns ?s' sid =
            (if sid = ms_id summ then fresh_rows (breakdownId s) (ms_id summ) (month_breakdowns txs)
             else getCategoryBreakdowns s sid)"
  proof -
    have "getCategoryBreakdowns s1 sid = getCategoryBreakdowns s sid" for sid
      using r(11) by (simp add: getCategoryBreakdowns_def)
    then show ?thesis
      using r(12) by (simp add: getCategoryBreakdowns_after_update[OF cb1])
  qed
  have ok': "store_ok ?s'"
    using tx ms1 updateCategoryBreakdowns_ok(1)[OF cb1] r(9,10)
    by (simp add: store_ok_def updateCategoryBreakdowns_frame)
  show ?thesis
    using gen r(1-7) look' rows ok' r(9)
    by (intro exI[of _ summ] exI[of _ ?s']) (simp add: updateCategoryBreakdowns_frame)
qed


lemma fresh_rows_amounts: "map cb_amount (fresh_rows n sid bs) = map icb_amount bs"
  by (induction bs arbitrary: n) auto

lemma fresh_rows_percentages: "map cb_percentage (fresh_rows n sid bs) = map icb_percentage bs"
  by (induction bs arbitrary: n) auto


lemma createOrUpdate_existing:
  assumes "getMonthlySummaryByMonth s u (ims_year d) (ims_month d) = Some e"
  shows "createOrUpdateMonthlySummary now s u d =
     (e\<lparr>ms_year := ims_year d, ms_month := ims_month d, ms_totalIncome := ims_totalIncome d,
        ms_totalExpenses := ims_totalExpenses d, ms_netBalance := ims_netBalance d,
        ms_lastUpdated := now\<rparr>,
      s\<lparr>monthlySummaries := AList.update (ms_id e)
           (e\<lparr>ms_year := ims_year d, ms_month := ims_month d, ms_totalIncome := ims_totalIncome d,
              ms_totalExpenses := ims_totalExpenses d, ms_netBalance := ims_netBalance d,
              ms_lastUpdated := now\<rparr>) (monthlySummaries s)\<rparr>)"
  using assms by (simp add: createOrUpdateMonthlySummary_def Let_def)

lemma update_same_image:
  assumes "distinct (map fst m)" "(k, v) \<in> set m" "f v' = f v"
  shows "map (\<lambda>(k, v). (k, f v)) (AList.update k v' m) = map (\<lambda>(k, v). (k, f v)) m"
  using assms
proof (induction m)
  case Nil
  then show ?case by simp
next
  case (Cons kv m)
  obtain k0 v0 where kv: "kv = (k0, v0)" by (cases kv)
  show ?case
  proof (cases "k0 = k")
    case True
    then have "v0 = v" using Cons.prems(1,2) by (force simp: kv)
    then show ?thesis using True Cons.prems(3) by (simp add: kv)
  next
    case False
    then show ?thesis using Cons by (auto simp: kv)
  qed
qed

subsection \<open>The store stays well formed\<close>

lemma store_ok_new: "store_ok MemStorage_new"
  by (simp add: store_ok_def keys_ok_def MemStorage_new_def)

lemma store_ok_createTransaction:
  assumes "store_ok s"
  shows "store_ok (snd (createTransaction now s u ins))"
proof -
  have "keys_ok tx_id (transactionId s) (transactions s)"
    using assms by (simp add: store_ok_def)
  from keys_ok_update_fresh[OF this, of "fst (createTransaction now s u ins)"]
  show ?thesis
    using assms by (simp add: store_ok_def createTransaction_def Let_def)
qed

lemma store_ok_updateTransaction:
  assumes "store_ok s"
  shows "store_ok (snd (updateTransaction s i upd))"
proof (cases "map_of (transactions s) i")
  case None
  then show ?thesis using assms by (simp add: updateTransaction_def)
next
  case (Some t)
  have ok: "keys_ok tx_id (transactionId s) (transactions s)"
    using assms by (simp add: store_ok_def)
  have mem: "(i, t) \<in> set (transactions s)" using Some by (rule map_of_SomeD)
  then have "tx_id t = i" using keys_okD(1)[OF ok] by simp
  then have "tx_id (apply_update upd t) = i"
    by (simp add: apply_update_def Let_def split: option.splits)
  moreover have "i \<in> fst ` set (transactions s)" using mem by force
  ultimately have "keys_ok tx_id (transactionId s) (AList.update i (apply_update upd t) (transactions s))"
    using ok by (intro keys_ok_update_same)
  then show ?thesis
    using assms Some by (simp add: store_ok_def updateTransaction_def Let_def)
qed

lemma store_ok_deleteTransaction:
  assumes "store_ok s"
  shows "store_ok (snd (deleteTransaction s i))"
  using assms by (simp add: store_ok_def deleteTransaction_def keys_ok_delete)

lemma store_ok_generateMonthlySummary:
  assumes "store_ok s"
  shows "store_ok (snd (generateMonthlySummary tza now s u y m))"
proof (cases "getTransactionsByMonth tza s u y m = []")
  case True
  then show ?thesis using assms by (simp add: generateMonthlySummary_def)
next
  case False
  from recompute_effect[OF assms refl False, of now] show ?thesis by auto
qed

lemma store_ok_save_extracted:
  assumes "store_ok s"
  shows "store_ok (snd (save_extracted now s saved ts))"
  using assms
proof (induction ts arbitrary: s saved)
  case Nil
  then show ?case by simp
next
  case (Cons t ts)
  show ?case
  proof (cases "insertTransactionSchema_parse (t\<lparr>it_pdfSource := Some (Some ''Uploaded PDF'')\<rparr>)")
    case None
    then show ?thesis using Cons.prems by simp
  next
    case (Some d)
    obtain created s' where c: "createTransaction now s 1 d = (created, s')"
      by (cases "createTransaction now s 1 d")
    have "store_ok s'" using store_ok_createTransaction[OF Cons.prems, of now 1 d] c by simp
    from Cons.IH[OF this] show ?thesis by (simp add: Some c)
  qed
qed

lemma store_ok_results:
  assumes "store_ok s"
  shows "createTransaction now s u ins = (t, s') \<Longrightarrow> store_ok s'"
    and "updateTransaction s i upd = (r, s') \<Longrightarrow> store_ok s'"
    and "deleteTransaction s i = (b, s') \<Longrightarrow> store_ok s'"
    and "save_extracted now s saved ts = (sv, s') \<Longrightarrow> store_ok s'"
  using store_ok_createTransaction[OF assms, of now u ins]
    store_ok_updateTransaction[OF assms, of i upd]
    store_ok_deleteTransaction[OF assms, of i]
    store_ok_save_extracted[OF assms, of now saved ts]
  by simp_all

lemma store_ok_post:
  "store_ok s \<Longrightarrow> store_ok (snd (post_transaction tza now s body))"
  by (auto simp: post_transaction_def Let_def split: option.splits prod.splits
      dest: store_ok_results intro!: store_ok_generateMonthlySummary)

lemma store_ok_put:
  "store_ok s \<Longrightarrow> store_ok (snd (put_transaction tza now s idParam body))"
  by (auto simp: put_transaction_def Let_def split: option.splits prod.splits
      dest: store_ok_results intro!: store_ok_generateMonthlySummary)

lemma store_ok_delete:
  "store_ok s \<Longrightarrow> store_ok (snd (delete_transaction tza now s idParam))"
  by (auto simp: delete_transaction_def Let_def split: option.splits prod.splits
      dest: store_ok_results intro!: store_ok_generateMonthlySummary)

lemma store_ok_upload:
  "store_ok s \<Longrightarrow> store_ok (snd (upload_statement extractPdfContent tza clock now s pdfContent))"
  by (auto simp: upload_statement_def Let_def split: option.splits prod.splits list.splits
      dest: store_ok_results intro!: store_ok_generateMonthlySummary)

lemma reachable_store_ok: "reachable extractPdfContent tza s \<Longrightarrow> store_ok s"
  by (induction rule: reachable.induct)
     (simp_all add: store_ok_new store_ok_post store_ok_put store_ok_delete store_ok_upload)

subsection \<open>The handlers keep the summaries up to date\<close>



















lemma foldl_collect:
  "foldl (\<lambda>found x. if c x then found @ [g (length found) x] else found) acc xs
     = acc @ map (\<lambda>(k, x). g k x) (enumerate (length acc) (filter c xs))"
proof (induction xs arbitrary: acc)
  case Nil
  then show ?case by simp
next
  case (Cons x xs)
  show ?case
  proof (cases "c x")
    case True
    have "foldl (\<lambda>found x. if c x then found @ [g (length found) x] else found) acc (x # xs)
            = foldl (\<lambda>found x. if c x then found @ [g (length found) x] else found)
                (acc @ [g (length acc) x]) xs"
      using True by simp
    also have "\<dots> = (acc @ [g (length acc) x])
                 @ map (\<lambda>(k, x). g k x) (enumerate (length (acc @ [g (length acc) x])) (filter c xs))"
      by (rule Cons.IH)
    finally show ?thesis using True by simp
  next
    case False
    then show ?thesis using Cons.IH[of acc] by simp
  qed
qed


lemma extractTransactions_alt:
  "extractTransactions clock text_in =
     map (\<lambda>(k, line).
            \<lparr>it_date = clock k, it_description = take 100 (trim line), it_category = classify line,
             it_amount =
               (if mentions [''deposit'', ''salary'', ''income'', ''transfer in''] line
                then parseFloat (case first_amount line of Some g \<Rightarrow> g | None \<Rightarrow> ''0'')
                else - parseFloat (case first_amount line of Some g \<Rightarrow> g | None \<Rightarrow> ''0'')),
             it_type =
               (if mentions [''deposit'', ''salary'', ''income'', ''transfer in''] line
                then ''income'' else ''expense''),
             it_pdfSource = None\<rparr>)
       (enumerate 0
          (filter amount_pattern_test
             (filter (\<lambda>line. length (trim line) > 0) (split_on (CHR 0x0A) text_in))))"
  unfolding extractTransactions_def Let_def
  using foldl_collect[of amount_pattern_test
      "\<lambda>k line. \<lparr>it_date = clock k, it_description = take 100 (trim line), it_category = classify line,
             it_amount =
               (if mentions [''deposit'', ''salary'', ''income'', ''transfer in''] line
                then parseFloat (case first_amount line of Some g \<Rightarrow> g | None \<Rightarrow> ''0'')
                else - parseFloat (case first_amount line of Some g \<Rightarrow> g | None \<Rightarrow> ''0'')),
             it_type =
               (if mentions [''deposit'', ''salary'', ''income'', ''transfer in''] line
                then ''income'' else ''expense''),
             it_pdfSource = None\<rparr>" "[]"]
  by simp







subsection \<open>Recompute on an empty month\<close>

text \<open>
  C10. When the month filter finds no transaction for (user, year, month), the aggregation
  returns no summary and leaves the whole store as it was: no summary is written and the
  summaries and breakdowns stored before stay.
\<close>

theorem recompute_empty_month_no_write:
  assumes "getTransactionsByMonth tza s userId year month = []"
  shows "generateMonthlySummary tza now s userId year month = (None, s)"
  using assms by (simp add: generateMonthlySummary_def)

text \<open>In \<open>emptied_store\<close> March 2024 has no transaction left, the recompute writes nothing, and
  the summary of the deleted expense is still stored.\<close>

theorem recompute_empty_month_no_write_witness:
  "getTransactionsByMonth 0 emptied_store 1 2024 3 = []
   \<and> generateMonthlySummary 0 30 emptied_store 1 2024 3 = (None, emptied_store)
   \<and> map_option ms_totalExpenses (getMonthlySummaryByMonth emptied_store 1 2024 3) = Some 200"
proof -
  have h: "getTransactionsByMonth 0 emptied_store 1 2024 3 = []"
    by code_simp
  have stale: "map_option ms_totalExpenses (getMonthlySummaryByMonth emptied_store 1 2024 3) = Some 200"
    by code_simp
  show ?thesis
    using recompute_empty_month_no_write[OF h, of 30] h stale by simp
qed

subsection \<open>The totals of a recompute\<close>

text \<open>
  C2. When the month filter returns a non-empty list for (userId, year, month), the
  aggregation returns and stores a summary of that user and month whose total income is the
  sum of the amounts of the transactions of type income, whose total expenses is the sum of
  the absolute amounts of the transactions of type expense, and whose net balance is the
  total income minus the total expenses.
\<close>

theorem recompute_totals:
  assumes "getTransactionsByMonth tza s userId year month = txs" and "txs \<noteq> []"
  shows "\<exists>summary s'. generateMonthlySummary tza now s userId year month = (Some summary, s')
      \<and> (ms_id summary, summary) \<in> set (monthlySummaries s')
      \<and> ms_userId summary = userId \<and> ms_year summary = year \<and> ms_month summary = month
      \<and> ms_totalIncome summary = (\<Sum>t\<leftarrow>filter (\<lambda>t. tx_type t = ''income'') txs. tx_amount t)
      \<and> ms_totalExpenses summary = (\<Sum>t\<leftarrow>filter (\<lambda>t. tx_type t = ''expense'') txs. \<bar>tx_amount t\<bar>)
      \<and> ms_netBalance summary = ms_totalIncome summary - ms_totalExpenses summary"
proof -
  let ?d = "\<lparr>ims_year = year, ims_month = month, ims_totalIncome = income_total txs,
              ims_totalExpenses = expenses_total txs,
              ims_netBalance = income_total txs - expenses_total txs\<rparr>"
  obtain summ s1 where cu: "createOrUpdateMonthlySummary now s userId ?d = (summ, s1)"
    by (cases "createOrUpdateMonthlySummary now s userId ?d")
  let ?s' = "snd (updateCategoryBreakdowns s1 (ms_id summ) (month_breakdowns txs))"
  have gen: "generateMonthlySummary tza now s userId year month = (Some summ, ?s')"
    by (simp add: generateMonthlySummary_nonempty[OF assms] cu)
  note r = createOrUpdate_result[OF cu]
  have stored: "(ms_id summ, summ) \<in> set (monthlySummaries ?s')"
    using r(8) by (simp add: updateCategoryBreakdowns_frame)
  show ?thesis
    using gen stored r(1-6)
    by (intro exI[of _ summ] exI[of _ ?s']) (simp add: income_total_def expenses_total_def)
qed

text \<open>The scenario of the specification: totals 1000, 200 and 800.\<close>

theorem recompute_totals_witness:
  "getTransactionsByMonth 0 march_store 1 2024 3 \<noteq> []
   \<and> (\<exists>summary s'. generateMonthlySummary 0 40 march_store 1 2024 3 = (Some summary, s')
        \<and> ms_totalIncome summary = 1000 \<and> ms_totalExpenses summary = 200
        \<and> ms_netBalance summary = 800)"
proof -
  let ?t1 = "\<lparr>tx_id = 1, tx_userId = 1, tx_date = \<lparr>d_year = 2024, d_month = 3, d_day = 5\<rparr>,
      tx_description = ''Pay'', tx_category = ''Income'', tx_amount = 1000, tx_type = ''income'',
      tx_pdfSource = None, tx_createdAt = 10\<rparr>"
  let ?t2 = "\<lparr>tx_id = 2, tx_userId = 1, tx_date = \<lparr>d_year = 2024, d_month = 3, d_day = 10\<rparr>,
      tx_description = ''Lunch'', tx_category = ''Food'', tx_amount = - 200, tx_type = ''expense'',
      tx_pdfSource = None, tx_createdAt = 20\<rparr>"
  have h: "getTransactionsByMonth 0 march_store 1 2024 3 = [?t1, ?t2]"
    by code_simp
  have ne: "[?t1, ?t2] \<noteq> []" by simp
  from recompute_totals[OF h ne, of 40] obtain summary s' where
    "generateMonthlySummary 0 40 march_store 1 2024 3 = (Some summary, s')"
    "ms_totalIncome summary = 1000" "ms_totalExpenses summary = 200"
    "ms_netBalance summary = ms_totalIncome summary - ms_totalExpenses summary"
    by auto
  then show ?thesis using h by auto
qed

subsection \<open>The breakdowns of a recompute\<close>



text \<open>
  In exact arithmetic the amounts of the stored breakdowns add up to the total expenses and
  their percentages to 100: the tally by category loses no expense and adds none. What the
  same sums are in doubles, where the total is added in the order of the transactions and
  each category in its own, is a matter of rounding and is not stated here.
\<close>

lemma exact_breakdown_sums:
  assumes "store_ok s"
    and "generateMonthlySummary tza now s userId year month = (Some summary, s')"
    and "0 < ms_totalExpenses summary"
  shows "(\<Sum>b\<leftarrow>getCategoryBreakdowns s' (ms_id summary). cb_amount b) = ms_totalExpenses summary
       \<and> (\<Sum>b\<leftarrow>getCategoryBreakdowns s' (ms_id summary). cb_percentage b) = 100"
proof -
  define txs where "txs = getTransactionsByMonth tza s userId year month"
  have ne: "txs \<noteq> []"
    using assms(2) by (auto simp: txs_def generateMonthlySummary_def)
  from recompute_effect[OF assms(1) txs_def[symmetric] ne, of now] assms(2)
  have tot: "ms_totalExpenses summary = expenses_total txs"
    and rows: "getCategoryBreakdowns s' (ms_id summary)
                 = fresh_rows (breakdownId s) (ms_id summary) (month_breakdowns txs)"
    by auto
  have pos: "0 < expenses_total txs" using assms(3) tot by simp
  have "(\<Sum>b\<leftarrow>getCategoryBreakdowns s' (ms_id summary). cb_amount b) = expenses_total txs"
    unfolding rows fresh_rows_amounts by (rule month_breakdowns_amounts)
  moreover have "(\<Sum>b\<leftarrow>getCategoryBreakdowns s' (ms_id summary). cb_percentage b) = 100"
    unfolding rows fresh_rows_percentages using pos by (rule month_breakdowns_percentages)
  ultimately show ?thesis using tot by simp
qed

subsection \<open>Recomputing twice\<close>

text \<open>
  C3. Two recomputes of the same (user, year, month) in a row on a well-formed store, with no
  change of the transactions in between, yield the same values; only the timestamp differs.
  The second returns the summary that the first returned with the timestamp replaced (and
  nothing if the first returned nothing); the stored summaries agree once the timestamps are
  erased; for every summary the stored breakdowns have the same summary, category, amount
  and percentage, in the same order; the transactions are untouched. (The rows of the
  breakdowns are deleted and inserted again on every recompute, so the identifiers under
  which they are filed are new; the values they carry are not.)
\<close>

theorem recompute_twice:
  assumes "store_ok s"
    and "generateMonthlySummary tza now1 s userId year month = (r1, s1)"
    and "generateMonthlySummary tza now2 s1 userId year month = (r2, s2)"
  shows "r2 = map_option (\<lambda>summary. summary\<lparr>ms_lastUpdated := now2\<rparr>) r1
      \<and> map (\<lambda>(k, v). (k, v\<lparr>ms_lastUpdated := 0\<rparr>)) (monthlySummaries s2)
          = map (\<lambda>(k, v). (k, v\<lparr>ms_lastUpdated := 0\<rparr>)) (monthlySummaries s1)
      \<and> (\<forall>sid. map breakdown_values (getCategoryBreakdowns s2 sid)
                = map breakdown_values (getCategoryBreakdowns s1 sid))
      \<and> transactions s2 = transactions s1"
proof -
  define txs where "txs = getTransactionsByMonth tza s userId year month"
  show ?thesis
  proof (cases "txs = []")
    case True
    then have 1: "r1 = None" "s1 = s"
      using assms(2) by (simp_all add: txs_def generateMonthlySummary_def)
    then have "r2 = None" "s2 = s1"
      using assms(3) True by (simp_all add: txs_def generateMonthlySummary_def)
    then show ?thesis using 1 by simp
  next
    case False
    from recompute_effect[OF assms(1) txs_def[symmetric] False, of now1] assms(2)
    obtain summ where r1: "r1 = Some summ"
      and fields: "ms_year summ = year" "ms_month summ = month"
        "ms_totalIncome summ = income_total txs" "ms_totalExpenses summ = expenses_total txs"
        "ms_netBalance summ = income_total txs - expenses_total txs"
      and look: "getMonthlySummaryByMonth s1 userId year month = Some summ"
      and rows1: "getCategoryBreakdowns s1 (ms_id summ)
                    = fresh_rows (breakdownId s) (ms_id summ) (month_breakdowns txs)"
      and tx1: "transactions s1 = transactions s"
      and ok1: "store_ok s1"
      by auto
    have txs1: "getTransactionsByMonth tza s1 userId year month = txs"
      by (simp add: txs_def getTransactionsByMonth_def tx1)
    let ?summ2 = "summ\<lparr>ms_lastUpdated := now2\<rparr>"
    let ?s1' = "s1\<lparr>monthlySummaries := AList.update (ms_id summ) ?summ2 (monthlySummaries s1)\<rparr>"
    have same: "summ\<lparr>ms_year := year, ms_month := month, ms_totalIncome := income_total txs,
        ms_totalExpenses := expenses_total txs,
        ms_netBalance := income_total txs - expenses_total txs,
        ms_lastUpdated := now2\<rparr> = ?summ2"
      using fields by simp
    have cu: "createOrUpdateMonthlySummary now2 s1 userId
             \<lparr>ims_year = year, ims_month = month, ims_totalIncome = income_total txs,
              ims_totalExpenses = expenses_total txs,
              ims_netBalance = income_total txs - expenses_total txs\<rparr> = (?summ2, ?s1')"
      using createOrUpdate_existing[of s1 userId
             "\<lparr>ims_year = year, ims_month = month, ims_totalIncome = income_total txs,
              ims_totalExpenses = expenses_total txs,
              ims_netBalance = income_total txs - expenses_total txs\<rparr>" summ now2] look
      by (simp add: same)
    have gen2: "generateMonthlySummary tza now2 s1 userId year month
                  = (Some ?summ2, snd (updateCategoryBreakdowns ?s1' (ms_id summ) (month_breakdowns txs)))"
      by (simp add: generateMonthlySummary_nonempty[OF txs1 False] cu)
    then have r2: "r2 = Some ?summ2"
      and s2: "s2 = snd (updateCategoryBreakdowns ?s1' (ms_id summ) (month_breakdowns txs))"
      using assms(3) by simp_all
    have cb1: "keys_ok cb_id (breakdownId ?s1') (categoryBreakdowns ?s1')"
      using ok1 by (simp add: store_ok_def)
    have rows2: "getCategoryBreakdowns s2 sid =
                   (if sid = ms_id summ
                    then fresh_rows (breakdownId s1) (ms_id summ) (month_breakdowns txs)
                    else getCategoryBreakdowns s1 sid)" for sid
      using getCategoryBreakdowns_after_update[OF cb1, of "ms_id summ" "month_breakdowns txs" sid]
      by (simp add: s2 getCategoryBreakdowns_def)
    have vals: "map breakdown_values (getCategoryBreakdowns s2 sid)
                    = map breakdown_values (getCategoryBreakdowns s1 sid)" for sid
      by (simp add: rows2 rows1 fresh_rows_values)
    have ms_ok: "keys_ok ms_id (summaryId s1) (monthlySummaries s1)"
      using ok1 by (simp add: store_ok_def)
    have "summ \<in> snd ` set (monthlySummaries s1)"
      using look by (auto simp: getMonthlySummaryByMonth_def find_Some_iff)
    then obtain k where "(k, summ) \<in> set (monthlySummaries s1)" by auto
    then have mem: "(ms_id summ, summ) \<in> set (monthlySummaries s1)"
      using keys_okD(1)[OF ms_ok] by force
    have "distinct (map fst (monthlySummaries s1))"
      using ms_ok by (simp add: keys_ok_def)
    from update_same_image[OF this mem, of "\<lambda>v. v\<lparr>ms_lastUpdated := 0\<rparr>" ?summ2]
    have summaries: "map (\<lambda>(k, v). (k, v\<lparr>ms_lastUpdated := 0\<rparr>)) (monthlySummaries s2)
          = map (\<lambda>(k, v). (k, v\<lparr>ms_lastUpdated := 0\<rparr>)) (monthlySummaries s1)"
      by (simp add: s2 updateCategoryBreakdowns_frame)
    have "transactions s2 = transactions s1"
      by (simp add: s2 updateCategoryBreakdowns_frame)
    then show ?thesis
      using r1 r2 summaries vals by simp
  qed
qed

theorem recompute_twice_witness:
  "store_ok march_store
   \<and> map_option ms_totalExpenses (fst march_recomputed) = Some 200
   \<and> fst march_recomputed_again
       = map_option (\<lambda>summary. summary\<lparr>ms_lastUpdated := 50\<rparr>) (fst march_recomputed)
   \<and> (\<forall>sid. map breakdown_values (getCategoryBreakdowns (snd march_recomputed_again) sid)
              = map breakdown_values (getCategoryBreakdowns (snd march_recomputed) sid))"
proof -
  have ok: "store_ok march_store" by code_simp
  have t: "map_option ms_totalExpenses (fst march_recomputed) = Some 200" by code_simp
  have 1: "generateMonthlySummary 0 40 march_store 1 2024 3 = (fst march_recomputed, snd march_recomputed)"
    by (simp add: march_recomputed_def)
  have 2: "generateMonthlySummary 0 50 (snd march_recomputed) 1 2024 3
             = (fst march_recomputed_again, snd march_recomputed_again)"
    by (simp add: march_recomputed_again_def)
  from recompute_twice[OF ok 1 2] show ?thesis
    using ok t by simp
qed

subsection \<open>Updating a transaction\<close>

text \<open>
  C7. For an identifier under which a transaction is stored, \<^verbatim>\<open>updateTransaction\<close> returns
  that transaction with every supplied field overwritten (the date as its date-only
  string) and every other field, the identifier, the user and the creation time included,
  as before; the returned transaction replaces the old one in the store and nothing else
  in the store changes. For an identifier with no stored transaction it returns nothing
  and the store is unchanged.
\<close>

theorem updateTransaction_overwrites_supplied_fields:
  "(\<forall>t. map_of (transactions s) i = Some t \<longrightarrow>
      (\<exists>t' s'. updateTransaction s i updateData = (Some t', s')
         \<and> tx_id t' = tx_id t \<and> tx_userId t' = tx_userId t \<and> tx_createdAt t' = tx_createdAt t
         \<and> tx_date t' = (case pt_date updateData of None \<Rightarrow> tx_date t | Some d \<Rightarrow> dateToString d)
         \<and> tx_amount t' = (case pt_amount updateData of None \<Rightarrow> tx_amount t | Some a \<Rightarrow> a)
         \<and> tx_description t' = (case pt_description updateData of None \<Rightarrow> tx_description t | Some d \<Rightarrow> d)
         \<and> tx_category t' = (case pt_category updateData of None \<Rightarrow> tx_category t | Some c \<Rightarrow> c)
         \<and> tx_type t' = (case pt_type updateData of None \<Rightarrow> tx_type t | Some ty \<Rightarrow> ty)
         \<and> tx_pdfSource t' = (case pt_pdfSource updateData of None \<Rightarrow> tx_pdfSource t | Some p \<Rightarrow> p)
         \<and> map_of (transactions s') = (map_of (transactions s))(i \<mapsto> t')
         \<and> s' = s\<lparr>transactions := transactions s'\<rparr>))
   \<and> (map_of (transactions s) i = None \<longrightarrow> updateTransaction s i updateData = (None, s))"
  by (auto simp: updateTransaction_def apply_update_def Let_def update_conv' split: option.splits)

theorem updateTransaction_overwrites_supplied_fields_witness:
  "(\<exists>t. map_of (transactions march_store) 2 = Some t \<and> tx_amount t = - 200 \<and> tx_category t = ''Food'')
   \<and> (\<exists>t' s'. updateTransaction march_store 2 new_amount = (Some t', s')
         \<and> tx_id t' = 2 \<and> tx_userId t' = 1 \<and> tx_createdAt t' = 20
         \<and> tx_amount t' = - 250 \<and> tx_category t' = ''Food'')
   \<and> map_of (transactions march_store) 7 = None
   \<and> updateTransaction march_store 7 new_amount = (None, march_store)"
proof -
  have h: "map_of (transactions march_store) 2 = Some (march_transactions ! 1)"
    by code_simp
  have n: "map_of (transactions march_store) 7 = None"
    by code_simp
  have f: "tx_id (march_transactions ! 1) = 2" "tx_userId (march_transactions ! 1) = 1"
    "tx_createdAt (march_transactions ! 1) = 20" "tx_amount (march_transactions ! 1) = - 200"
    "tx_category (march_transactions ! 1) = ''Food''"
    by (simp_all add: march_transactions_def)
  show ?thesis
    using updateTransaction_overwrites_supplied_fields[of march_store 2 new_amount]
      updateTransaction_overwrites_supplied_fields[of march_store 7 new_amount] h n f
    by (auto simp: new_amount_def)
qed

subsection \<open>Creating a transaction\<close>

text \<open>
  C8, as the claim states it: the amount of the created transaction is normalised to two
  decimals. In \<^verbatim>\<open>MemStorage\<close> the amount is \<^verbatim>\<open>String(amount)\<close>, which denotes the number as
  given: an amount of 12.345 is stored as 12.345.
\<close>

theorem createTransaction_keeps_third_decimal:
  "tx_amount (fst (createTransaction 10 MemStorage_new 1 (march_food\<lparr>it_amount := 12345 / 1000\<rparr>)))
     = 12345 / 1000
   \<and> \<not> two_decimals
         (tx_amount (fst (createTransaction 10 MemStorage_new 1 (march_food\<lparr>it_amount := 12345 / 1000\<rparr>))))"
  by code_simp

text \<open>
  C8, amended. On a well-formed store \<^verbatim>\<open>createTransaction\<close> returns a transaction whose
  identifier is the value of the counter, which no stored transaction has, and advances
  the counter by one; the transaction is stored under that identifier; its amount denotes
  the number that was given, unrounded; its date is the date-only string of the UTC
  calendar day of the given instant, a string that parses to a midnight.
\<close>

theorem createTransaction_result:
  assumes "store_ok s" and "createTransaction now s userId insertTransaction = (t, s')"
  shows "tx_id t = transactionId s \<and> tx_id t \<notin> fst ` set (transactions s)
       \<and> transactionId s' = transactionId s + 1
       \<and> map_of (transactions s') = (map_of (transactions s))(tx_id t \<mapsto> t)
       \<and> tx_userId t = userId
       \<and> tx_amount t = it_amount insertTransaction
       \<and> tx_date t = dateToString (it_date insertTransaction)
       \<and> Date_of_string (tx_date t) mod msPerDay = 0"
proof -
  have "keys_ok tx_id (transactionId s) (transactions s)"
    using assms(1) by (simp add: store_ok_def)
  then have fresh: "transactionId s \<notin> fst ` set (transactions s)"
    by (rule keys_ok_fresh)
  have t: "tx_id t = transactionId s" "tx_userId t = userId"
    "tx_amount t = it_amount insertTransaction"
    "tx_date t = dateToString (it_date insertTransaction)"
    and s': "transactionId s' = transactionId s + 1"
      "transactions s' = AList.update (transactionId s) t (transactions s)"
    using assms(2) by (auto simp: createTransaction_def Let_def)
  show ?thesis
    using fresh by (simp add: t s' update_conv' Date_of_string_def)
qed

theorem createTransaction_result_witness:
  "store_ok march_store
   \<and> (\<exists>t s'. createTransaction 30 march_store 1 (march_food\<lparr>it_amount := 12345 / 1000\<rparr>) = (t, s')
        \<and> tx_id t = 3 \<and> tx_amount t = 12345 / 1000
        \<and> tx_date t = \<lparr>d_year = 2024, d_month = 3, d_day = 10\<rparr>)"
proof -
  have ok: "store_ok march_store" by code_simp
  obtain t s' where c: "createTransaction 30 march_store 1 (march_food\<lparr>it_amount := 12345 / 1000\<rparr>) = (t, s')"
    by (cases "createTransaction 30 march_store 1 (march_food\<lparr>it_amount := 12345 / 1000\<rparr>)")
  have n: "transactionId march_store = 3" by code_simp
  have d: "dateToString (it_date (march_food\<lparr>it_amount := 12345 / 1000\<rparr>)) = \<lparr>d_year = 2024, d_month = 3, d_day = 10\<rparr>"
    by code_simp
  have a: "it_amount (march_food\<lparr>it_amount := 12345 / 1000\<rparr>) = 12345 / 1000" by simp
  from createTransaction_result[OF ok c] show ?thesis
    using ok c n d a by simp
qed

subsection \<open>Uploading a statement without amounts\<close>

lemma no_amount_nothing_extracted:
  assumes "list_all (\<lambda>line. \<not> amount_pattern_test line) (split_on (CHR 0x0A) text_in)"
  shows "extractTransactions clock text_in = []"
proof -
  have "filter amount_pattern_test
          (filter (\<lambda>line. length (trim line) > 0) (split_on (CHR 0x0A) text_in)) = []"
    using assms by (auto simp: list_all_iff filter_empty_conv)
  then show ?thesis
    by (simp add: extractTransactions_alt)
qed

text \<open>
  C9. When the text extracted from the uploaded document has no line that matches the
  pattern of a dollar sign, digits, a point and two digits, the upload handler answers
  with status 400 and the store is the one it was given: no transaction is created.
\<close>

theorem upload_without_amounts_rejected:
  assumes "extractPdfContent content = Some extractedText"
    and "list_all (\<lambda>line. \<not> amount_pattern_test line) (split_on (CHR 0x0A) extractedText)"
  shows "upload_statement extractPdfContent tza clock now s (Some content) = (400, s)"
  using assms by (simp add: upload_statement_def no_amount_nothing_extracted)

theorem upload_without_amounts_rejected_witness:
  "plain_pdf ''JVBERi0='' = Some plain_text
   \<and> list_all (\<lambda>line. \<not> amount_pattern_test line) (split_on (CHR 0x0A) plain_text)
   \<and> upload_statement plain_pdf 0 month_end_clock 30 march_store (Some ''JVBERi0='')
       = (400, march_store)"
proof -
  have a: "plain_pdf ''JVBERi0='' = Some plain_text" by (simp add: plain_pdf_def)
  have b: "list_all (\<lambda>line. \<not> amount_pattern_test line) (split_on (CHR 0x0A) plain_text)"
    by code_simp
  show ?thesis
    using upload_without_amounts_rejected[of plain_pdf "''JVBERi0=''" plain_text 0 month_end_clock
        30 march_store] a b
    by simp
qed

subsection \<open>Summaries and the transactions of their month\<close>




subsection \<open>The month filter and the time zone\<close>

text \<open>
  C4 asks that the month filter returns exactly the transactions of the user dated within
  the month, so that for March 2024 a transaction dated 2024-03-31 is included and one dated
  2024-04-01 is not. Both filters parse the date-only string as midnight UTC and compare it
  with local-time values. With the process in UTC both return the transaction of 03-31 only.
  Five hours west of UTC the filter of \<^verbatim>\<open>MemStorage\<close> puts 2024-04-01 into March and nothing
  into April; two hours east of UTC the filter of \<^verbatim>\<open>PostgresStorage\<close> drops 2024-03-31.
\<close>

theorem month_filter_follows_time_zone:
  "map tx_date (getTransactionsByMonth 0 boundary_store 1 2024 3)
     = [\<lparr>d_year = 2024, d_month = 3, d_day = 31\<rparr>]
   \<and> map tx_date (getTransactionsByMonth (- 18000000) boundary_store 1 2024 3)
     = [\<lparr>d_year = 2024, d_month = 3, d_day = 31\<rparr>, \<lparr>d_year = 2024, d_month = 4, d_day = 1\<rparr>]
   \<and> map tx_date (getTransactionsByMonth (- 18000000) boundary_store 1 2024 4) = []
   \<and> map tx_date (pg_getTransactionsByMonth 0 (getTransactions boundary_store 1) 2024 3)
     = [\<lparr>d_year = 2024, d_month = 3, d_day = 31\<rparr>]
   \<and> map tx_date (pg_getTransactionsByMonth 7200000 (getTransactions boundary_store 1) 2024 3) = []"
  by code_simp

end
